theory Spec2Isabelle
  imports Complex_Main
begin

section \<open>The host interface used by the filter\<close>

text \<open>
  The filter of \<^verbatim>\<open>cpu_source/source.cpp\<close> talks to its host through handles: nodes,
  frames and plane pointers. The model keeps the handles symbolic. A frame obtained
  with \<^verbatim>\<open>getFrameFilter(n, node, frameCtx)\<close> is \<open>FrameOf node n\<close>; the pointer obtained
  with \<^verbatim>\<open>getReadPtr(frame, plane)\<close> is \<open>ReadPtr frame plane\<close>; the pointer obtained with
  \<^verbatim>\<open>getWritePtr(dst_frame, plane)\<close> is \<open>WritePtr plane\<close> (one destination frame per call);
  a block returned by \<^verbatim>\<open>vs_aligned_malloc\<close> is \<open>BufferPtr a\<close>.

  The C++ \<^verbatim>\<open>int\<close> is modelled by \<open>int\<close>: signed overflow is undefined in the source, so
  the model describes the executions in which no \<^verbatim>\<open>int\<close> computation leaves the 32-bit
  range.
\<close>

type_synonym VSNodeRef = nat
type_synonym thread_id = nat
type_synonym address = nat

datatype VSSampleType = stInteger | stFloat

record VSFormat =
  format_id :: int
  sampleType :: VSSampleType
  bitsPerSample :: int
  numPlanes :: int

text \<open>The \<^verbatim>\<open>format\<close> pointer of a video info is null for a clip of variable format.\<close>

record VSVideoInfo =
  format :: "VSFormat option"
  width :: int
  height :: int
  numFrames :: int

datatype VSActivationReason = arInitial | arFrameReady | arAllFramesReady | arError

datatype VSFrameRef = FrameOf VSNodeRef int

datatype pointer = ReadPtr VSFrameRef int | WritePtr int | BufferPtr address

text \<open>
  The accessors of a source frame (\<^verbatim>\<open>getFrameWidth\<close>, \<^verbatim>\<open>getFrameHeight\<close>, \<^verbatim>\<open>getStride\<close>, the
  latter in bytes) and \<^verbatim>\<open>getVideoInfo\<close> belong to the host; they are parameters. So is
  the row stride the host gives a plane of a frame it allocates: \<open>newFrameStride api fmt w p\<close>
  is the stride in bytes of the plane \<open>p\<close> of a new frame of the format \<open>fmt\<close> and the
  width \<open>w\<close> (the host derives it from these and from nothing else). \<open>pfYUV444PS api\<close> is
  the host's identifier of the planar 4:4:4 single-precision YUV format.
\<close>

record VSAPI =
  getFrameWidth :: "VSFrameRef \<Rightarrow> int \<Rightarrow> int"
  getFrameHeight :: "VSFrameRef \<Rightarrow> int \<Rightarrow> int"
  getStride :: "VSFrameRef \<Rightarrow> int \<Rightarrow> int"
  getVideoInfo :: "VSNodeRef \<Rightarrow> VSVideoInfo"
  newFrameStride :: "VSFormat \<Rightarrow> int \<Rightarrow> int \<Rightarrow> int"
  pfYUV444PS :: int

section \<open>Single-precision values\<close>

text \<open>
  A \<^verbatim>\<open>float\<close> or \<^verbatim>\<open>double\<close> value is a finite rational, an infinity or a NaN. The two
  zeros are one value: the filter only multiplies and compares, and no comparison
  tells them apart.
\<close>

datatype ieee = Finite rat | PosInf | NegInf | NaN

text \<open>
  Rounding to single precision, to nearest with ties to even. \<open>pow2 e\<close> is \<open>2\<close> to the
  power \<open>e\<close>; \<open>floor_log2 a\<close> is the binary exponent of a positive \<open>a\<close>, from the bit
  lengths of its numerator and denominator; the exponent of a single-precision
  value is at least \<open>-126\<close> and its significand has 24 bits, so the values near \<open>a\<close> are
  the multiples of \<open>pow2 (e - 23)\<close>; a result of \<open>pow2 128\<close> or more is an infinity.
\<close>

definition pow2 :: "int \<Rightarrow> rat" where
  "pow2 e = (if 0 \<le> e then 2 ^ nat e else 1 / 2 ^ nat (- e))"

function bit_length :: "int \<Rightarrow> int" where
  "bit_length n = (if n \<le> 0 then 0 else 1 + bit_length (n div 2))"
  by pat_completeness auto
termination
  by (relation "measure nat") auto

declare bit_length.simps [simp del]

definition floor_log2 :: "rat \<Rightarrow> int" where
  "floor_log2 a =
     (let nd = quotient_of a; e = bit_length (fst nd) - bit_length (snd nd)
      in if pow2 e \<le> a then e else e - 1)"

definition round_even :: "rat \<Rightarrow> int" where
  "round_even m =
     (let f = \<lfloor>m\<rfloor>; r = m - of_int f
      in if r < 1 / 2 then f else if 1 / 2 < r then f + 1 else if even f then f else f + 1)"

definition f32_round :: "rat \<Rightarrow> ieee" where
  "f32_round q =
     (if q = 0 then Finite 0
      else
        (let a = \<bar>q\<bar>; e = max (floor_log2 a) (- 126); u = pow2 (e - 23);
             v = of_int (round_even (a / u)) * u
         in if pow2 128 \<le> v then (if 0 < q then PosInf else NegInf)
            else Finite (if 0 < q then v else - v)))"

text \<open>
  \<^verbatim>\<open>static_cast<float>\<close> of a \<^verbatim>\<open>double\<close>, the product, the quotient and the comparison \<^verbatim>\<open><\<close>
  of two \<^verbatim>\<open>float\<close> values, each operation rounded once, as IEEE 754 arithmetic in
  single precision has them. A comparison with a NaN is false.
\<close>

definition to_float :: "ieee \<Rightarrow> ieee" where
  "to_float x = (case x of Finite q \<Rightarrow> f32_round q | _ \<Rightarrow> x)"

fun fmul :: "ieee \<Rightarrow> ieee \<Rightarrow> ieee" where
  "fmul NaN y = NaN"
| "fmul x NaN = NaN"
| "fmul (Finite a) (Finite b) = f32_round (a * b)"
| "fmul (Finite a) PosInf = (if a = 0 then NaN else if 0 < a then PosInf else NegInf)"
| "fmul (Finite a) NegInf = (if a = 0 then NaN else if 0 < a then NegInf else PosInf)"
| "fmul PosInf (Finite b) = (if b = 0 then NaN else if 0 < b then PosInf else NegInf)"
| "fmul NegInf (Finite b) = (if b = 0 then NaN else if 0 < b then NegInf else PosInf)"
| "fmul PosInf PosInf = PosInf"
| "fmul PosInf NegInf = NegInf"
| "fmul NegInf PosInf = NegInf"
| "fmul NegInf NegInf = PosInf"

fun fdiv :: "ieee \<Rightarrow> ieee \<Rightarrow> ieee" where
  "fdiv (Finite a) (Finite b) =
     (if b = 0 then (if a = 0 then NaN else if 0 < a then PosInf else NegInf)
      else f32_round (a / b))"
| "fdiv (Finite a) PosInf = Finite 0"
| "fdiv (Finite a) NegInf = Finite 0"
| "fdiv PosInf (Finite b) = (if 0 \<le> b then PosInf else NegInf)"
| "fdiv NegInf (Finite b) = (if 0 \<le> b then NegInf else PosInf)"
| "fdiv x y = NaN"

fun fless :: "ieee \<Rightarrow> ieee \<Rightarrow> bool" where
  "fless (Finite a) (Finite b) = (a < b)"
| "fless (Finite a) PosInf = True"
| "fless NegInf (Finite b) = True"
| "fless NegInf PosInf = True"
| "fless x y = False"

text \<open>\<^verbatim>\<open>std::numeric_limits<float>::epsilon()\<close>.\<close>

definition epsilon :: ieee where
  "epsilon = Finite (1 / 2 ^ 23)"

text \<open>
  The factor of line 428, \<^verbatim>\<open>(3.f / 4.f) / 255.f * 64.f * (d->ref_node == nullptr ? 2.7f :
  1.0f)\<close>; \<open>no_ref\<close> says that there is no reference node.
\<close>

definition sigma_scale :: "bool \<Rightarrow> ieee" where
  "sigma_scale no_ref =
     fmul (fmul (fdiv (fdiv (Finite 3) (Finite 4)) (Finite 255)) (Finite 64))
       (if no_ref then f32_round (27 / 10) else Finite 1)"

section \<open>Filter instance data and the kernel call\<close>

record BM3DData =
  node :: VSNodeRef
  ref_node :: "VSNodeRef option"
  vi :: VSVideoInfo
  sigma :: "ieee list"
  block_step :: "int list"
  bm_range :: "int list"
  radius :: int
  ps_num :: "int list"
  ps_range :: "int list"
  chroma :: bool
  process :: "bool list"
  buffer :: "thread_id \<rightharpoonup> address"

text \<open>
  One call \<^verbatim>\<open>bm3d<temporal, chroma, final_>(dstps, stride, srcps, refps, width, height,
  sigma, block_step, bm_range, radius, ps_num, ps_range, buffer)\<close>: the three template
  arguments and the thirteen arguments. A null \<^verbatim>\<open>refps\<close> or \<^verbatim>\<open>buffer\<close> is \<open>None\<close>.
\<close>

record bm3d_call =
  bm3d_temporal :: bool
  bm3d_chroma :: bool
  bm3d_final :: bool
  bm3d_dstps :: "pointer list"
  bm3d_stride :: int
  bm3d_srcps :: "pointer list"
  bm3d_refps :: "pointer list option"
  bm3d_width :: int
  bm3d_height :: int
  bm3d_sigma :: "ieee list"
  bm3d_block_step :: int
  bm3d_bm_range :: int
  bm3d_radius :: int
  bm3d_ps_num :: int
  bm3d_ps_range :: int
  bm3d_buffer :: "pointer option"

text \<open>
  What the filter does to the outside world, in program order. \<open>Memset p n\<close> is
  \<^verbatim>\<open>memset(p, 0, n)\<close> with \<open>n\<close> in bytes; \<open>AlignedMalloc a n\<close> is a call of
  \<^verbatim>\<open>vs_aligned_malloc<float>(n, 32)\<close> that returned the block \<open>a\<close>.
\<close>

datatype event =
    RequestFrameFilter int VSNodeRef
  | GetFrameFilter int VSNodeRef
  | AlignedMalloc address int
  | Memset pointer int
  | Bm3d bm3d_call
  | FreeFrame VSFrameRef

section \<open>The frame window (BM3DGetFrame, lines 79 to 114)\<close>

text \<open>\<^verbatim>\<open>std::clamp(v, lo, hi)\<close>.\<close>

definition clamp :: "int \<Rightarrow> int \<Rightarrow> int \<Rightarrow> int" where
  "clamp v lo hi = (if v < lo then lo else if hi < v then hi else v)"

text \<open>
  The loop \<^verbatim>\<open>for (int i = start_frame; i <= end_frame; ++i) requestFrameFilter(i, nd,
  frameCtx)\<close> of lines 83 and 87, started at \<open>i\<close>.
\<close>

function request_loop :: "int \<Rightarrow> int \<Rightarrow> VSNodeRef \<Rightarrow> event list" where
  "request_loop i end_frame nd =
     (if i \<le> end_frame then RequestFrameFilter i nd # request_loop (i + 1) end_frame nd
      else [])"
  by pat_completeness auto
termination
  by (relation "measure (\<lambda>(i, end_frame, nd). nat (end_frame + 1 - i))") auto

declare request_loop.simps [simp del]

text \<open>The announce phase, \<^verbatim>\<open>activationReason == arInitial\<close> (lines 80 to 90).\<close>

definition announce :: "BM3DData \<Rightarrow> int \<Rightarrow> event list" where
  "announce d n =
     (let start_frame = max (n - radius d) 0;
          end_frame = min (n + radius d) (numFrames (vi d) - 1)
      in request_loop start_frame end_frame (node d) @
         (case ref_node d of
            None \<Rightarrow> []
          | Some r \<Rightarrow> request_loop start_frame end_frame r))"

text \<open>
  The loop \<^verbatim>\<open>for (int i = -d->radius; i <= d->radius; ++i)\<close> of lines 98 and 108, started
  at \<open>i\<close>: it pushes the frame at the clamped index.
\<close>

function fetch_loop :: "int \<Rightarrow> BM3DData \<Rightarrow> int \<Rightarrow> VSNodeRef \<Rightarrow> VSFrameRef list" where
  "fetch_loop i d n nd =
     (if i \<le> radius d
      then FrameOf nd (clamp (n + i) 0 (numFrames (vi d) - 1)) # fetch_loop (i + 1) d n nd
      else [])"
  by pat_completeness auto
termination
  by (relation "measure (\<lambda>(i, d, n, nd). nat (radius d + 1 - i))") auto

declare fetch_loop.simps [simp del]

definition src_frames :: "BM3DData \<Rightarrow> int \<Rightarrow> VSFrameRef list" where
  "src_frames d n = fetch_loop (- radius d) d n (node d)"

definition ref_frames :: "BM3DData \<Rightarrow> int \<Rightarrow> VSFrameRef list" where
  "ref_frames d n =
     (case ref_node d of None \<Rightarrow> [] | Some r \<Rightarrow> fetch_loop (- radius d) d n r)"

section \<open>Destination frames\<close>

text \<open>
  A plane of a destination frame either shares the data of a plane of a source frame
  (\<^verbatim>\<open>newVideoFrame2\<close> with a non-null entry of \<^verbatim>\<open>planeSrc\<close>), or is a private copy of it
  (after \<^verbatim>\<open>getWritePtr\<close> on a shared plane: the host copies before it hands out a
  writable pointer), or is new, uninitialised memory. \<open>frame_props\<close> holds the
  properties written by the filter; the properties inherited from \<open>frame_propSrc\<close>
  are the host's.
\<close>

datatype plane_data = SharedPlane VSFrameRef int | CopiedPlane VSFrameRef int | NewPlane

datatype prop_value = PropInt int | PropIntArray "int list"

record VSFrame =
  frame_format :: VSFormat
  frame_width :: int
  frame_height :: int
  frame_planes :: "plane_data list"
  frame_propSrc :: VSFrameRef
  frame_props :: "(string \<times> prop_value) list"

definition newVideoFrame2 ::
  "VSFormat \<Rightarrow> int \<Rightarrow> int \<Rightarrow> VSFrameRef option list \<Rightarrow> int list \<Rightarrow> VSFrameRef \<Rightarrow> VSFrame" where
  "newVideoFrame2 fmt w h planeSrc planes propSrc =
     \<lparr>frame_format = fmt, frame_width = w, frame_height = h,
      frame_planes =
        map (\<lambda>i. case planeSrc ! i of None \<Rightarrow> NewPlane | Some f \<Rightarrow> SharedPlane f (planes ! i))
          [0..<nat (numPlanes fmt)],
      frame_propSrc = propSrc, frame_props = []\<rparr>"

definition newVideoFrame :: "VSFormat \<Rightarrow> int \<Rightarrow> int \<Rightarrow> VSFrameRef \<Rightarrow> VSFrame" where
  "newVideoFrame fmt w h propSrc =
     \<lparr>frame_format = fmt, frame_width = w, frame_height = h,
      frame_planes = replicate (nat (numPlanes fmt)) NewPlane,
      frame_propSrc = propSrc, frame_props = []\<rparr>"

fun detach :: "plane_data \<Rightarrow> plane_data" where
  "detach (SharedPlane f p) = CopiedPlane f p"
| "detach (CopiedPlane f p) = CopiedPlane f p"
| "detach NewPlane = NewPlane"

text \<open>The effect of \<^verbatim>\<open>getWritePtr(dst_frame, plane)\<close> on the frame; the pointer is \<open>WritePtr plane\<close>.\<close>

definition getWritePtr :: "VSFrame \<Rightarrow> int \<Rightarrow> VSFrame" where
  "getWritePtr f plane =
     (if 0 \<le> plane \<and> nat plane < length (frame_planes f)
      then f\<lparr>frame_planes := (frame_planes f)[nat plane := detach (frame_planes f ! nat plane)]\<rparr>
      else f)"

text \<open>\<^verbatim>\<open>propSetInt(map, key, v, paReplace)\<close> and \<^verbatim>\<open>propSetIntArray(map, key, a, size)\<close>.\<close>

definition propSet :: "VSFrame \<Rightarrow> string \<Rightarrow> prop_value \<Rightarrow> VSFrame" where
  "propSet f key v = f\<lparr>frame_props := filter (\<lambda>kv. fst kv \<noteq> key) (frame_props f) @ [(key, v)]\<rparr>"

text \<open>The destination frame of lines 116 to 132.\<close>

definition make_dst_frame :: "BM3DData \<Rightarrow> VSFormat \<Rightarrow> VSFrameRef \<Rightarrow> VSFrame" where
  "make_dst_frame d fmt src_frame =
     (if radius d = 0 then
        newVideoFrame2 fmt (width (vi d)) (height (vi d))
          [if process d ! 0 then None else Some src_frame,
           if process d ! 1 then None else Some src_frame,
           if process d ! 2 then None else Some src_frame]
          [0, 1, 2] src_frame
      else
        newVideoFrame fmt (width (vi d)) (height (vi d) * 2 * (2 * radius d + 1)) src_frame)"

text \<open>\<^verbatim>\<open>BM3DInit\<close> (lines 56 to 70): the video info handed to \<^verbatim>\<open>setVideoInfo\<close>.\<close>

definition BM3DInit :: "BM3DData \<Rightarrow> VSVideoInfo" where
  "BM3DInit d =
     (if radius d \<noteq> 0 then (vi d)\<lparr>height := height (vi d) * (2 * (2 * radius d + 1))\<rparr>
      else vi d)"

section \<open>Scratch buffers, clearing and kernel dispatch\<close>

text \<open>
  Modelled from the spec: \<^verbatim>\<open>num_planes(chroma)\<close> is declared in \<^verbatim>\<open>bm3d_impl.hpp\<close>, which is
  not among the sources. The spec sizes the scratch buffer as
  \<^verbatim>\<open>stride * height * 2 * planeGroupSize\<close> floats, where a plane-group is a single plane in
  per-plane mode and all three planes in joint-chroma mode.
\<close>

definition num_planes :: "bool \<Rightarrow> int" where
  "num_planes chroma' = (if chroma' then 3 else 1)"

text \<open>
  The state a call of \<^verbatim>\<open>BM3DGetFrame\<close> reads and writes: the instance data (of which only
  \<open>buffer\<close> changes), the allocator (\<open>next_address\<close> is the block the next
  \<^verbatim>\<open>vs_aligned_malloc\<close> returns) and the events so far.
\<close>

record state =
  instanceData :: BM3DData
  next_address :: address
  trace :: "event list"

text \<open>
  The lambda of lines 170 to 182 and of lines 266 to 278. \<^verbatim>\<open>sizeof(float)\<close> is 4.
\<close>

definition get_buffer :: "bool \<Rightarrow> thread_id \<Rightarrow> int \<Rightarrow> int \<Rightarrow> state \<Rightarrow> pointer option \<times> state" where
  "get_buffer chroma' tid stride height' s =
     (let d = instanceData s in
      if radius d = 0 then
        (case buffer d tid of
           None \<Rightarrow>
             (let a = next_address s in
              (Some (BufferPtr a),
               s\<lparr>instanceData := d\<lparr>buffer := (buffer d)(tid \<mapsto> a)\<rparr>,
                 next_address := a + 1,
                 trace := trace s @
                   [AlignedMalloc a (4 * stride * height' * 2 * num_planes chroma')]\<rparr>))
         | Some a \<Rightarrow> (Some (BufferPtr a), s))
      else (None, s))"

text \<open>Lines 184 to 190 and lines 280 to 286.\<close>

definition clear_memory ::
  "bool \<Rightarrow> BM3DData \<Rightarrow> pointer option \<Rightarrow> pointer list \<Rightarrow> int \<Rightarrow> int \<Rightarrow> event list" where
  "clear_memory chroma' d buffer' dstps stride height' =
     (if radius d = 0 then
        (case buffer' of
           None \<Rightarrow> []
         | Some b \<Rightarrow> [Memset b (4 * stride * height' * 2 * num_planes chroma')])
      else map (\<lambda>dstp. Memset dstp (4 * stride * height' * 2 * (2 * radius d + 1))) dstps)"

text \<open>
  Lines 192 to 241 and lines 288 to 334: the four calls of \<^verbatim>\<open>bm3d\<close>. \<open>refps\<close> is the
  vector built from \<open>ref_frames\<close> in the branch with a reference node.
\<close>

definition dispatch ::
  "bool \<Rightarrow> BM3DData \<Rightarrow> pointer list \<Rightarrow> int \<Rightarrow> pointer list \<Rightarrow> pointer list \<Rightarrow> int \<Rightarrow> int \<Rightarrow>
   ieee list \<Rightarrow> int \<Rightarrow> int \<Rightarrow> int \<Rightarrow> int \<Rightarrow> pointer option \<Rightarrow> bm3d_call" where
  "dispatch chroma' d dstps stride srcps refps width' height' sigma' block_step' bm_range'
     ps_num' ps_range' buffer' =
     (if ref_node d = None then
        (if radius d = 0 then
           \<lparr>bm3d_temporal = False, bm3d_chroma = chroma', bm3d_final = False,
            bm3d_dstps = dstps, bm3d_stride = stride, bm3d_srcps = srcps, bm3d_refps = None,
            bm3d_width = width', bm3d_height = height',
            bm3d_sigma = sigma', bm3d_block_step = block_step', bm3d_bm_range = bm_range',
            bm3d_radius = radius d, bm3d_ps_num = ps_num', bm3d_ps_range = ps_range',
            bm3d_buffer = buffer'\<rparr>
         else
           \<lparr>bm3d_temporal = True, bm3d_chroma = chroma', bm3d_final = False,
            bm3d_dstps = dstps, bm3d_stride = stride, bm3d_srcps = srcps, bm3d_refps = None,
            bm3d_width = width', bm3d_height = height',
            bm3d_sigma = sigma', bm3d_block_step = block_step', bm3d_bm_range = bm_range',
            bm3d_radius = radius d, bm3d_ps_num = ps_num', bm3d_ps_range = ps_range',
            bm3d_buffer = None\<rparr>)
      else
        (if radius d = 0 then
           \<lparr>bm3d_temporal = False, bm3d_chroma = chroma', bm3d_final = True,
            bm3d_dstps = dstps, bm3d_stride = stride, bm3d_srcps = srcps,
            bm3d_refps = Some refps,
            bm3d_width = width', bm3d_height = height',
            bm3d_sigma = sigma', bm3d_block_step = block_step', bm3d_bm_range = bm_range',
            bm3d_radius = radius d, bm3d_ps_num = ps_num', bm3d_ps_range = ps_range',
            bm3d_buffer = buffer'\<rparr>
         else
           \<lparr>bm3d_temporal = True, bm3d_chroma = chroma', bm3d_final = True,
            bm3d_dstps = dstps, bm3d_stride = stride, bm3d_srcps = srcps,
            bm3d_refps = Some refps,
            bm3d_width = width', bm3d_height = height',
            bm3d_sigma = sigma', bm3d_block_step = block_step', bm3d_bm_range = bm_range',
            bm3d_radius = radius d, bm3d_ps_num = ps_num', bm3d_ps_range = ps_range',
            bm3d_buffer = None\<rparr>))"

section \<open>The compute phase (BM3DGetFrame, lines 91 to 357)\<close>

text \<open>
  The joint-chroma branch, lines 141 to 241. \<open>srcs\<close> and \<open>refs\<close> are the two windows,
  \<open>src_frame\<close> is \<^verbatim>\<open>src_frames[center]\<close>. The stride is \<^verbatim>\<open>getStride(...) / sizeof(float)\<close>.
\<close>

definition chroma_path ::
  "VSAPI \<Rightarrow> thread_id \<Rightarrow> VSFrameRef list \<Rightarrow> VSFrameRef list \<Rightarrow> VSFrameRef \<Rightarrow>
   VSFrame \<times> state \<Rightarrow> VSFrame \<times> state" where
  "chroma_path api tid srcs refs src_frame fs =
     (let dst_frame = fst fs; s = snd fs; d = instanceData s;
          srcps = concat (map (\<lambda>plane. map (\<lambda>frame. ReadPtr frame plane) srcs) [0, 1, 2]);
          dst_frame' = getWritePtr (getWritePtr (getWritePtr dst_frame 0) 1) 2;
          dstps = [WritePtr 0, WritePtr 1, WritePtr 2];
          width' = getFrameWidth api src_frame 0;
          height' = getFrameHeight api src_frame 0;
          stride = getStride api src_frame 0 div 4;
          sigma' = sigma d;
          block_step' = block_step d ! 0;
          bm_range' = bm_range d ! 0;
          ps_num' = ps_num d ! 0;
          ps_range' = ps_range d ! 0;
          bs = get_buffer True tid stride height' s;
          buffer' = fst bs; s1 = snd bs;
          refps = concat (map (\<lambda>plane. map (\<lambda>frame. ReadPtr frame plane) refs) [0, 1, 2])
      in (dst_frame',
          s1\<lparr>trace := trace s1 @
             clear_memory True d buffer' dstps stride height' @
             [Bm3d (dispatch True d dstps stride srcps refps width' height' sigma'
                block_step' bm_range' ps_num' ps_range' buffer')]\<rparr>))"

text \<open>The body of the loop over the planes, lines 246 to 335.\<close>

definition plane_body ::
  "VSAPI \<Rightarrow> thread_id \<Rightarrow> VSFrameRef list \<Rightarrow> VSFrameRef list \<Rightarrow> VSFrameRef \<Rightarrow> int \<Rightarrow>
   VSFrame \<times> state \<Rightarrow> VSFrame \<times> state" where
  "plane_body api tid srcs refs src_frame plane fs =
     (let dst_frame = fst fs; s = snd fs; d = instanceData s in
      if process d ! nat plane then
        (let srcps = map (\<lambda>frame. ReadPtr frame plane) srcs;
             dst_frame' = getWritePtr dst_frame plane;
             dstps = [WritePtr plane];
             width' = getFrameWidth api src_frame plane;
             height' = getFrameHeight api src_frame plane;
             stride = getStride api src_frame plane div 4;
             sigma' = [sigma d ! nat plane];
             block_step' = block_step d ! nat plane;
             bm_range' = bm_range d ! nat plane;
             ps_num' = ps_num d ! nat plane;
             ps_range' = ps_range d ! nat plane;
             bs = get_buffer False tid stride height' s;
             buffer' = fst bs; s1 = snd bs;
             refps = map (\<lambda>frame. ReadPtr frame plane) refs
         in (dst_frame',
             s1\<lparr>trace := trace s1 @
                clear_memory False d buffer' dstps stride height' @
                [Bm3d (dispatch False d dstps stride srcps refps width' height' sigma'
                   block_step' bm_range' ps_num' ps_range' buffer')]\<rparr>))
      else fs)"

text \<open>
  The loop \<^verbatim>\<open>for (int plane = 0; plane < d->vi->format->numPlanes; plane++)\<close> of line 245,
  started at \<open>plane\<close>; \<open>np\<close> is the number of planes.
\<close>

function plane_loop ::
  "VSAPI \<Rightarrow> thread_id \<Rightarrow> VSFrameRef list \<Rightarrow> VSFrameRef list \<Rightarrow> VSFrameRef \<Rightarrow> int \<Rightarrow> int \<Rightarrow>
   VSFrame \<times> state \<Rightarrow> VSFrame \<times> state" where
  "plane_loop api tid srcs refs src_frame np plane fs =
     (if plane < np
      then plane_loop api tid srcs refs src_frame np (plane + 1)
             (plane_body api tid srcs refs src_frame plane fs)
      else fs)"
  by pat_completeness auto
termination
  by (relation "measure (\<lambda>(api, tid, srcs, refs, src_frame, np, plane, fs). nat (np - plane))")
    auto

declare plane_loop.simps [simp del]

definition int_of_bool :: "bool \<Rightarrow> int" where
  "int_of_bool b = (if b then 1 else 0)"

text \<open>
  Lines 92 to 356, for a non-null format \<open>fmt\<close>: the two windows, the destination
  frame, one of the two branches, the release of the windows and the metadata.
\<close>

definition all_frames_ready ::
  "VSAPI \<Rightarrow> thread_id \<Rightarrow> int \<Rightarrow> VSFormat \<Rightarrow> state \<Rightarrow> VSFrame \<times> state" where
  "all_frames_ready api tid n fmt s =
     (let d = instanceData s;
          srcs = src_frames d n;
          refs = ref_frames d n;
          s0 = s\<lparr>trace := trace s @
                 map (\<lambda>f. case f of FrameOf nd k \<Rightarrow> GetFrameFilter k nd) (srcs @ refs)\<rparr>;
          src_frame = srcs ! nat (radius d);
          dst_frame = make_dst_frame d fmt src_frame;
          fs = (if chroma d
                then chroma_path api tid srcs refs src_frame (dst_frame, s0)
                else plane_loop api tid srcs refs src_frame (numPlanes fmt) 0 (dst_frame, s0));
          dst1 = fst fs; s1 = snd fs;
          s2 = s1\<lparr>trace := trace s1 @ map FreeFrame srcs @ map FreeFrame refs\<rparr>;
          dst2 = (if radius d \<noteq> 0
                  then propSet (propSet dst1 ''BM3D_V_radius'' (PropInt (radius d)))
                         ''BM3D_V_process''
                         (PropIntArray [int_of_bool (process d ! 0), int_of_bool (process d ! 1),
                            int_of_bool (process d ! 2)])
                  else dst1)
      in (dst2, s2))"

text \<open>
  \<^verbatim>\<open>BM3DGetFrame\<close>. The result is the returned frame (\<open>None\<close> is \<^verbatim>\<open>nullptr\<close>). Three
  executions have no defined behaviour in the source and are faults of the model: a
  null \<^verbatim>\<open>d->vi->format\<close>, a negative radius (\<^verbatim>\<open>src_frames[center]\<close> of an empty vector) and,
  in per-plane mode, more than three planes (\<^verbatim>\<open>d->process[plane]\<close> beyond the array).
  \<^verbatim>\<open>BM3DCreate\<close> and the host's formats exclude all three.
\<close>

datatype fault = NullPointer | OutOfBounds

definition BM3DGetFrame ::
  "VSAPI \<Rightarrow> thread_id \<Rightarrow> int \<Rightarrow> VSActivationReason \<Rightarrow> state \<Rightarrow> (fault + VSFrame option) \<times> state"
  where
  "BM3DGetFrame api tid n activationReason s =
     (let d = instanceData s in
      if activationReason = arInitial then
        (Inr None, s\<lparr>trace := trace s @ announce d n\<rparr>)
      else if activationReason = arAllFramesReady then
        (case format (vi d) of
           None \<Rightarrow> (Inl NullPointer, s)
         | Some fmt \<Rightarrow>
             if radius d < 0 then (Inl OutOfBounds, s)
             else if \<not> chroma d \<and> 3 < numPlanes fmt then (Inl OutOfBounds, s)
             else (let r = all_frames_ready api tid n fmt s in (Inr (Some (fst r)), snd r)))
      else (Inr None, s))"

section \<open>Construction (BM3DCreate, lines 378 to 515)\<close>

text \<open>
  The arguments of the call, as the host's map holds them: a clip, an optional
  reference clip, and for every other key the array of its values (empty when the
  key is absent; a \<^verbatim>\<open>double\<close> for each sigma). \<open>propGet xs i\<close> is the read of the element
  \<open>i\<close>, \<open>None\<close> when the host reports an error (no such element).
\<close>

record VSMap_in =
  arg_clip :: VSNodeRef
  arg_ref :: "VSNodeRef option"
  arg_sigma :: "ieee list"
  arg_block_step :: "int list"
  arg_bm_range :: "int list"
  arg_radius :: "int list"
  arg_ps_num :: "int list"
  arg_ps_range :: "int list"
  arg_chroma :: "int list"

definition propGet :: "'a list \<Rightarrow> nat \<Rightarrow> 'a option" where
  "propGet xs i = (if i < length xs then Some (xs ! i) else None)"

text \<open>\<^verbatim>\<open>int64ToIntS\<close> and \<^verbatim>\<open>isConstantFormat\<close> of the host's helper header.\<close>

definition int64ToIntS :: "int \<Rightarrow> int" where
  "int64ToIntS i =
     (if 2147483647 < i then 2147483647 else if i < - 2147483648 then - 2147483648 else i)"

definition isConstantFormat :: "VSVideoInfo \<Rightarrow> bool" where
  "isConstantFormat v = (0 < height v \<and> 0 < width v \<and> format v \<noteq> None)"

text \<open>
  What construction does to the host, in program order, and how it ends: with a
  filter instance, with an error reported to the host, or with the read of a field
  of a null format (the reference clip's, which the source does not check).
\<close>

datatype create_event =
    PropGetNode string VSNodeRef
  | SetError string
  | FreeNode "VSNodeRef option"
  | CreateFilter

datatype outcome = Created BM3DData | Failed | NullDereference

text \<open>A word between double quotes, as the messages have it.\<close>

definition quoted :: "string \<Rightarrow> string" where
  "quoted s = [CHR 0x22] @ s @ [CHR 0x22]"

text \<open>
  The lambda \<^verbatim>\<open>set_error\<close> of lines 390 to 394, after the events \<open>evs\<close>: the error is
  reported and both node handles of \<open>d\<close> are passed to \<^verbatim>\<open>freeNode\<close>.
\<close>

definition set_error :: "create_event list \<Rightarrow> BM3DData \<Rightarrow> string \<Rightarrow> create_event list \<times> outcome" where
  "set_error evs d error_message =
     (evs @ [SetError (''BM3D: '' @ error_message), FreeNode (Some (node d)), FreeNode (ref_node d)],
      Failed)"

text \<open>
  The loop over sigma, lines 417 to 433. \<open>sigma_input in' i prev\<close> is the value before
  scaling, lines 418 to 425: the supplied value converted to \<^verbatim>\<open>float\<close>, refused when
  negative, or else 3 for the first entry and \<open>prev\<close>, which is \<^verbatim>\<open>d->sigma[i - 1]\<close>, for a
  later one. The loop scales it, sets the process flag and stores it.
\<close>

definition sigma_input :: "VSMap_in \<Rightarrow> nat \<Rightarrow> ieee \<Rightarrow> string + ieee" where
  "sigma_input in' i prev =
     (case propGet (arg_sigma in') i of
        None \<Rightarrow> Inr (if i = 0 then Finite 3 else prev)
      | Some x \<Rightarrow>
          if fless (to_float x) (Finite 0)
          then Inl (quoted ''sigma'' @ '' must be non-negative'')
          else Inr (to_float x))"

function sigma_loop :: "VSMap_in \<Rightarrow> nat \<Rightarrow> BM3DData \<Rightarrow> string + BM3DData" where
  "sigma_loop in' i d =
     (if i < 3 then
        (case sigma_input in' i (sigma d ! (i - 1)) of
           Inl msg \<Rightarrow> Inl msg
         | Inr sigma' \<Rightarrow>
             (let sigma'' = fmul sigma' (sigma_scale (ref_node d = None))
              in sigma_loop in' (i + 1)
                   (d\<lparr>process := (process d)[i := \<not> fless sigma'' epsilon],
                      sigma := (sigma d)[i := sigma'']\<rparr>)))
      else Inr d)"
  by pat_completeness auto
termination
  by (relation "measure (\<lambda>(in', i, d). 3 - i)") auto

declare sigma_loop.simps [simp del]

text \<open>
  The four loops over an array of integers (\<^verbatim>\<open>block_step\<close>, \<^verbatim>\<open>bm_range\<close>, \<^verbatim>\<open>ps_num\<close>,
  \<^verbatim>\<open>ps_range\<close>, lines 435 to 459 and 469 to 493) differ in the key, the default, the
  test and the message only; \<open>arr\<close> is the array of \<open>d\<close> being filled.
\<close>

definition int_input :: "int list \<Rightarrow> int \<Rightarrow> (int \<Rightarrow> bool) \<Rightarrow> string \<Rightarrow> nat \<Rightarrow> int \<Rightarrow> string + int" where
  "int_input vals dflt bad msg i prev =
     (case propGet vals i of
        None \<Rightarrow> Inr (if i = 0 then dflt else prev)
      | Some v \<Rightarrow> if bad (int64ToIntS v) then Inl msg else Inr (int64ToIntS v))"

function int_loop ::
  "int list \<Rightarrow> int \<Rightarrow> (int \<Rightarrow> bool) \<Rightarrow> string \<Rightarrow> nat \<Rightarrow> int list \<Rightarrow> string + int list" where
  "int_loop vals dflt bad msg i arr =
     (if i < 3 then
        (case int_input vals dflt bad msg i (arr ! (i - 1)) of
           Inl m \<Rightarrow> Inl m
         | Inr v \<Rightarrow> int_loop vals dflt bad msg (i + 1) (arr[i := v]))
      else Inr arr)"
  by pat_completeness auto
termination
  by (relation "measure (\<lambda>(vals, dflt, bad, msg, i, arr). 3 - i)") auto

declare int_loop.simps [simp del]

text \<open>
  Lines 417 to 514: the parameters are read in the order of the source, the first
  error ends construction, and \<^verbatim>\<open>createFilter\<close> is called last. (The reservation of
  line 508 is a capacity hint without effect on the pool's contents.)
\<close>

definition read_params :: "VSAPI \<Rightarrow> create_event list \<Rightarrow> VSMap_in \<Rightarrow> VSFormat \<Rightarrow> BM3DData \<Rightarrow> create_event list \<times> outcome" where
  "read_params api evs in' fmt d =
     (case sigma_loop in' 0 d of
        Inl msg \<Rightarrow> set_error evs d msg
      | Inr d1 \<Rightarrow>
     (case int_loop (arg_block_step in') 8 (\<lambda>v. v \<le> 0 \<or> 8 < v)
             (quoted ''block_step'' @ '' must be in range [1, 8]'') 0 (block_step d1) of
        Inl msg \<Rightarrow> set_error evs d1 msg
      | Inr bs \<Rightarrow>
     (case int_loop (arg_bm_range in') 9 (\<lambda>v. v \<le> 0)
             (quoted ''bm_range'' @ '' must be positive'') 0 (bm_range d1) of
        Inl msg \<Rightarrow> set_error evs d1 msg
      | Inr br \<Rightarrow>
     (case (case propGet (arg_radius in') 0 of
              None \<Rightarrow> Inr 0
            | Some v \<Rightarrow>
                if int64ToIntS v < 0 then Inl (quoted ''radius'' @ '' must be positive'')
                else Inr (int64ToIntS v)) of
        Inl msg \<Rightarrow> set_error evs d1 msg
      | Inr radius' \<Rightarrow>
     (case int_loop (arg_ps_num in') 2 (\<lambda>v. v \<le> 0)
             (quoted ''ps_num'' @ '' must be positive'') 0 (ps_num d1) of
        Inl msg \<Rightarrow> set_error evs d1 msg
      | Inr pn \<Rightarrow>
     (case int_loop (arg_ps_range in') 4 (\<lambda>v. v \<le> 0)
             (quoted ''ps_range'' @ '' must be positive'') 0 (ps_range d1) of
        Inl msg \<Rightarrow> set_error evs d1 msg
      | Inr pr \<Rightarrow>
     (let chroma' = (case propGet (arg_chroma in') 0 of None \<Rightarrow> False | Some v \<Rightarrow> v \<noteq> 0)
      in if chroma' \<and> format_id fmt \<noteq> pfYUV444PS api
         then set_error evs d1
                (''clip format must be YUV444 when '' @ quoted ''chroma'' @ '' is true'')
         else (evs @ [CreateFilter],
               Created (d1\<lparr>block_step := bs, bm_range := br, radius := radius', ps_num := pn,
                          ps_range := pr, chroma := chroma'\<rparr>)))))))))"

text \<open>The instance data as \<^verbatim>\<open>std::make_unique<BM3DData>()\<close> leaves them, with the clip.\<close>

definition initial_data :: "VSAPI \<Rightarrow> VSMap_in \<Rightarrow> BM3DData" where
  "initial_data api in' =
     \<lparr>node = arg_clip in', ref_node = None, vi = getVideoInfo api (arg_clip in'),
      sigma = [Finite 0, Finite 0, Finite 0],
      block_step = [0, 0, 0], bm_range = [0, 0, 0], radius = 0,
      ps_num = [0, 0, 0], ps_range = [0, 0, 0], chroma = False,
      process = [False, False, False], buffer = Map.empty\<rparr>"

text \<open>
  \<^verbatim>\<open>BM3DCreate\<close>. The format test of line 396 reads the fields of the format only when
  \<^verbatim>\<open>isConstantFormat\<close> holds, which includes that the format is not null.
\<close>

definition BM3DCreate :: "VSAPI \<Rightarrow> VSMap_in \<Rightarrow> create_event list \<times> outcome" where
  "BM3DCreate api in' =
     (let d = initial_data api in';
          evs = [PropGetNode ''clip'' (arg_clip in')]
      in case (if isConstantFormat (vi d) then format (vi d) else None) of
           None \<Rightarrow> set_error evs d ''only constant format 32 bit float input supported''
         | Some fmt \<Rightarrow>
             if sampleType fmt = stInteger \<or> (sampleType fmt = stFloat \<and> bitsPerSample fmt \<noteq> 32)
             then set_error evs d ''only constant format 32 bit float input supported''
             else
               (case arg_ref in' of
                  None \<Rightarrow> read_params api evs in' fmt d
                | Some r \<Rightarrow>
                    (let d' = d\<lparr>ref_node := Some r\<rparr>;
                         evs' = evs @ [PropGetNode ''ref'' r];
                         ref_vi = getVideoInfo api r
                     in case format ref_vi of
                          None \<Rightarrow> (evs', NullDereference)
                        | Some ref_fmt \<Rightarrow>
                            if format_id ref_fmt \<noteq> format_id fmt
                            then set_error evs' d'
                                   (quoted ''ref'' @ '' must be of the same format as '' @
                                    quoted ''clip'')
                            else if width ref_vi \<noteq> width (vi d) \<or> height ref_vi \<noteq> height (vi d)
                            then set_error evs' d'
                                   (quoted ''ref'' @ '' must be of the same dimensions as '' @
                                    quoted ''clip'')
                            else if numFrames ref_vi \<noteq> numFrames (vi d)
                            then set_error evs' d'
                                   (quoted ''ref'' @ '' must be of the same number of frames as '' @
                                    quoted ''clip'')
                            else read_params api evs' in' fmt d')))"

section \<open>The events of a compute phase\<close>

text \<open>The kernel calls among some events, in order.\<close>

fun kernel_calls :: "event list \<Rightarrow> bm3d_call list" where
  "kernel_calls [] = []"
| "kernel_calls (Bm3d c # es) = c # kernel_calls es"
| "kernel_calls (e # es) = kernel_calls es"

text \<open>The frames fetched and the frames released among some events, in order.\<close>

fun fetched :: "event list \<Rightarrow> VSFrameRef list" where
  "fetched [] = []"
| "fetched (GetFrameFilter k nd # es) = FrameOf nd k # fetched es"
| "fetched (e # es) = fetched es"

fun freed :: "event list \<Rightarrow> VSFrameRef list" where
  "freed [] = []"
| "freed (FreeFrame f # es) = f # freed es"
| "freed (e # es) = freed es"

text \<open>The events a call added to the trace.\<close>

definition frame_events :: "state \<Rightarrow> state \<Rightarrow> event list" where
  "frame_events s s' = drop (length (trace s)) (trace s')"

text \<open>
  The scratch buffer of a worker in a state: the block registered for it in
  \<^verbatim>\<open>d->buffer\<close>, or the block the next allocation returns when none is registered.
\<close>

definition scratch_of :: "state \<Rightarrow> thread_id \<Rightarrow> address" where
  "scratch_of s tid =
     (case buffer (instanceData s) tid of None \<Rightarrow> next_address s | Some a \<Rightarrow> a)"

text \<open>
  The events of one processed plane and of the joint-chroma branch, given the scratch
  pointer \<open>b\<close> that \<open>get_buffer\<close> returned, and the events and the state of a whole loop
  over the planes in closed form (\<open>ps\<close> are the processed planes).
\<close>

definition plane_events ::
  "VSAPI \<Rightarrow> BM3DData \<Rightarrow> VSFrameRef list \<Rightarrow> VSFrameRef list \<Rightarrow> VSFrameRef \<Rightarrow> pointer option \<Rightarrow>
   int \<Rightarrow> event list" where
  "plane_events api d srcs refs src_frame b plane =
     clear_memory False d b [WritePtr plane] (getStride api src_frame plane div 4)
       (getFrameHeight api src_frame plane) @
     [Bm3d (dispatch False d [WritePtr plane] (getStride api src_frame plane div 4)
        (map (\<lambda>frame. ReadPtr frame plane) srcs) (map (\<lambda>frame. ReadPtr frame plane) refs)
        (getFrameWidth api src_frame plane) (getFrameHeight api src_frame plane)
        [sigma d ! nat plane] (block_step d ! nat plane) (bm_range d ! nat plane)
        (ps_num d ! nat plane) (ps_range d ! nat plane) b)]"

definition joint_events ::
  "VSAPI \<Rightarrow> BM3DData \<Rightarrow> VSFrameRef list \<Rightarrow> VSFrameRef list \<Rightarrow> VSFrameRef \<Rightarrow> pointer option \<Rightarrow>
   event list" where
  "joint_events api d srcs refs src_frame b =
     clear_memory True d b [WritePtr 0, WritePtr 1, WritePtr 2]
       (getStride api src_frame 0 div 4) (getFrameHeight api src_frame 0) @
     [Bm3d (dispatch True d [WritePtr 0, WritePtr 1, WritePtr 2]
        (getStride api src_frame 0 div 4)
        (concat (map (\<lambda>plane. map (\<lambda>frame. ReadPtr frame plane) srcs) [0, 1, 2]))
        (concat (map (\<lambda>plane. map (\<lambda>frame. ReadPtr frame plane) refs) [0, 1, 2]))
        (getFrameWidth api src_frame 0) (getFrameHeight api src_frame 0)
        (sigma d) (block_step d ! 0) (bm_range d ! 0) (ps_num d ! 0) (ps_range d ! 0) b)]"

definition planes_result ::
  "VSAPI \<Rightarrow> thread_id \<Rightarrow> VSFrameRef list \<Rightarrow> VSFrameRef list \<Rightarrow> VSFrameRef \<Rightarrow> int list \<Rightarrow>
   VSFrame \<times> state \<Rightarrow> VSFrame \<times> state" where
  "planes_result api tid srcs refs src_frame ps fs =
     (let f = fst fs; s = snd fs; d = instanceData s;
          fresh = (radius d = 0 \<and> buffer d tid = None \<and> ps \<noteq> []);
          b = (if radius d = 0 then Some (BufferPtr (scratch_of s tid)) else None)
      in (foldl getWritePtr f ps,
          s\<lparr>instanceData := (if fresh then d\<lparr>buffer := (buffer d)(tid \<mapsto> next_address s)\<rparr> else d),
            next_address := (if fresh then next_address s + 1 else next_address s),
            trace := trace s @
              (if fresh
               then [AlignedMalloc (next_address s)
                       (4 * (getStride api src_frame (hd ps) div 4) *
                        getFrameHeight api src_frame (hd ps) * 2 * num_planes False)]
               else []) @
              concat (map (plane_events api d srcs refs src_frame b) ps)\<rparr>))"

definition compute_events :: "VSAPI \<Rightarrow> thread_id \<Rightarrow> int \<Rightarrow> VSFormat \<Rightarrow> state \<Rightarrow> event list" where
  "compute_events api tid n fmt s =
     (let d = instanceData s; srcs = src_frames d n; refs = ref_frames d n;
          src_frame = srcs ! nat (radius d);
          ps = (if chroma d then [0]
                else filter (\<lambda>p. process d ! nat p) [0..numPlanes fmt - 1]);
          fresh = (radius d = 0 \<and> buffer d tid = None \<and> ps \<noteq> []);
          b = (if radius d = 0 then Some (BufferPtr (scratch_of s tid)) else None)
      in map (\<lambda>f. case f of FrameOf nd k \<Rightarrow> GetFrameFilter k nd) (srcs @ refs) @
         (if fresh
          then [AlignedMalloc (next_address s)
                  (4 * (getStride api src_frame (hd ps) div 4) *
                   getFrameHeight api src_frame (hd ps) * 2 * num_planes (chroma d))]
          else []) @
         (if chroma d then joint_events api d srcs refs src_frame b
          else concat (map (plane_events api d srcs refs src_frame b) ps)) @
         map FreeFrame srcs @ map FreeFrame refs)"

section \<open>What the claims say about the events\<close>

text \<open>
  The scratch pointer the kernel is to receive from the worker \<open>tid\<close>: the worker's
  buffer with radius 0, the null pointer otherwise.
\<close>

definition worker_buffer :: "state \<Rightarrow> thread_id \<Rightarrow> pointer option" where
  "worker_buffer s tid =
     (if radius (instanceData s) = 0 then Some (BufferPtr (scratch_of s tid)) else None)"

text \<open>
  The kernel calls as the spec words them. Joint-chroma mode: one call for the three
  planes, the pointers of every window frame for each plane, all three sigmas and
  the parameters of index 0. Per-plane mode: one call for the plane, with the plane's
  own parameters. The variant is temporal for a positive radius and reference-guided
  when a reference node is configured.
\<close>

definition expected_joint_call :: "VSAPI \<Rightarrow> BM3DData \<Rightarrow> int \<Rightarrow> pointer option \<Rightarrow> bm3d_call" where
  "expected_joint_call api d n b =
     (let window = src_frames d n; center = window ! nat (radius d) in
      \<lparr>bm3d_temporal = (0 < radius d), bm3d_chroma = True, bm3d_final = (ref_node d \<noteq> None),
       bm3d_dstps = [WritePtr 0, WritePtr 1, WritePtr 2],
       bm3d_stride = getStride api center 0 div 4,
       bm3d_srcps = concat (map (\<lambda>plane. map (\<lambda>frame. ReadPtr frame plane) window) [0, 1, 2]),
       bm3d_refps =
         (if ref_node d = None then None
          else Some (concat (map (\<lambda>plane. map (\<lambda>frame. ReadPtr frame plane) (ref_frames d n))
                 [0, 1, 2]))),
       bm3d_width = getFrameWidth api center 0, bm3d_height = getFrameHeight api center 0,
       bm3d_sigma = sigma d, bm3d_block_step = block_step d ! 0, bm3d_bm_range = bm_range d ! 0,
       bm3d_radius = radius d, bm3d_ps_num = ps_num d ! 0, bm3d_ps_range = ps_range d ! 0,
       bm3d_buffer = b\<rparr>)"

definition expected_plane_call ::
  "VSAPI \<Rightarrow> BM3DData \<Rightarrow> int \<Rightarrow> pointer option \<Rightarrow> int \<Rightarrow> bm3d_call" where
  "expected_plane_call api d n b plane =
     (let window = src_frames d n; center = window ! nat (radius d) in
      \<lparr>bm3d_temporal = (0 < radius d), bm3d_chroma = False, bm3d_final = (ref_node d \<noteq> None),
       bm3d_dstps = [WritePtr plane],
       bm3d_stride = getStride api center plane div 4,
       bm3d_srcps = map (\<lambda>frame. ReadPtr frame plane) window,
       bm3d_refps =
         (if ref_node d = None then None
          else Some (map (\<lambda>frame. ReadPtr frame plane) (ref_frames d n))),
       bm3d_width = getFrameWidth api center plane,
       bm3d_height = getFrameHeight api center plane,
       bm3d_sigma = [sigma d ! nat plane], bm3d_block_step = block_step d ! nat plane,
       bm3d_bm_range = bm_range d ! nat plane, bm3d_radius = radius d,
       bm3d_ps_num = ps_num d ! nat plane, bm3d_ps_range = ps_range d ! nat plane,
       bm3d_buffer = b\<rparr>)"

text \<open>
  \<open>cleared_for c hist\<close>: the events just before the kernel call \<open>c\<close> (\<open>hist\<close>, latest
  first) clear what the call works on. For a spatial call the latest event zeroes the
  scratch buffer passed to the call, \<open>stride * height * 2 * num_planes\<close> floats; for a
  temporal call the latest events zero every destination plane passed to the call,
  \<open>stride * height * 2 * (2 * radius + 1)\<close> floats each. \<open>cleared_scan hist es\<close> says so
  of every kernel call among the events \<open>es\<close> that follow \<open>hist\<close>.
\<close>

definition cleared_for :: "bm3d_call \<Rightarrow> event list \<Rightarrow> bool" where
  "cleared_for c hist =
     (if bm3d_temporal c
      then take (length (bm3d_dstps c)) hist =
             rev (map (\<lambda>p. Memset p (4 * bm3d_stride c * bm3d_height c * 2 *
                                    (2 * bm3d_radius c + 1))) (bm3d_dstps c))
      else (case bm3d_buffer c of
              None \<Rightarrow> False
            | Some b \<Rightarrow>
                take 1 hist =
                  [Memset b (4 * bm3d_stride c * bm3d_height c * 2 *
                             num_planes (bm3d_chroma c))]))"

fun cleared_scan :: "event list \<Rightarrow> event list \<Rightarrow> bool" where
  "cleared_scan hist [] = True"
| "cleared_scan hist (Bm3d c # es) = (cleared_for c hist \<and> cleared_scan (Bm3d c # hist) es)"
| "cleared_scan hist (e # es) = cleared_scan (e # hist) es"

text \<open>The blocks allocated and the pointers zeroed by some events, in order.\<close>

fun allocations :: "event list \<Rightarrow> address list" where
  "allocations [] = []"
| "allocations (AlignedMalloc a m # es) = a # allocations es"
| "allocations (e # es) = allocations es"

fun cleared_pointers :: "event list \<Rightarrow> pointer list" where
  "cleared_pointers [] = []"
| "cleared_pointers (Memset p m # es) = p # cleared_pointers es"
| "cleared_pointers (e # es) = cleared_pointers es"



text \<open>
  A sequence of calls of \<^verbatim>\<open>BM3DGetFrame\<close> on one filter instance, one after another,
  each by a worker, for a frame and with an activation reason.
\<close>

fun run :: "VSAPI \<Rightarrow> (thread_id \<times> int \<times> VSActivationReason) list \<Rightarrow> state \<Rightarrow> state" where
  "run api [] s = s"
| "run api ((tid, n, reason) # calls) s = run api calls (snd (BM3DGetFrame api tid n reason s))"

text \<open>
  The error messages reported, the nodes acquired with \<^verbatim>\<open>propGetNode\<close> and the nodes
  released with \<^verbatim>\<open>freeNode\<close> among some events of a construction.
\<close>

fun errors :: "create_event list \<Rightarrow> string list" where
  "errors [] = []"
| "errors (SetError m # es) = m # errors es"
| "errors (e # es) = errors es"

fun acquired :: "create_event list \<Rightarrow> VSNodeRef list" where
  "acquired [] = []"
| "acquired (PropGetNode k n # es) = n # acquired es"
| "acquired (e # es) = acquired es"

fun released :: "create_event list \<Rightarrow> VSNodeRef list" where
  "released [] = []"
| "released (FreeNode (Some n) # es) = n # released es"
| "released (e # es) = released es"

text \<open>
  A reference clip differs from the clip in the format id, in the dimensions or in
  the number of frames; the three messages for it, and the message of the first
  difference in this order; the messages of the other parameters.
\<close>

definition ref_mismatch :: "VSVideoInfo \<Rightarrow> VSFormat \<Rightarrow> VSVideoInfo \<Rightarrow> VSFormat \<Rightarrow> bool" where
  "ref_mismatch v fmt ref_vi ref_fmt =
     (format_id ref_fmt \<noteq> format_id fmt \<or> width ref_vi \<noteq> width v \<or>
      height ref_vi \<noteq> height v \<or> numFrames ref_vi \<noteq> numFrames v)"

definition ref_messages :: "string list" where
  "ref_messages =
     [''BM3D: '' @ quoted ''ref'' @ '' must be of the same format as '' @ quoted ''clip'',
      ''BM3D: '' @ quoted ''ref'' @ '' must be of the same dimensions as '' @ quoted ''clip'',
      ''BM3D: '' @ quoted ''ref'' @ '' must be of the same number of frames as '' @
        quoted ''clip'']"

definition ref_message :: "VSVideoInfo \<Rightarrow> VSFormat \<Rightarrow> VSVideoInfo \<Rightarrow> VSFormat \<Rightarrow> string" where
  "ref_message v fmt ref_vi ref_fmt =
     (if format_id ref_fmt \<noteq> format_id fmt then ref_messages ! 0
      else if width ref_vi \<noteq> width v \<or> height ref_vi \<noteq> height v then ref_messages ! 1
      else ref_messages ! 2)"

definition param_messages :: "string list" where
  "param_messages =
     [quoted ''sigma'' @ '' must be non-negative'',
      quoted ''block_step'' @ '' must be in range [1, 8]'',
      quoted ''bm_range'' @ '' must be positive'',
      quoted ''radius'' @ '' must be positive'',
      quoted ''ps_num'' @ '' must be positive'',
      quoted ''ps_range'' @ '' must be positive'',
      ''clip format must be YUV444 when '' @ quoted ''chroma'' @ '' is true'']"

text \<open>
  The events of a construction, for each way it ends. One that fails has reported
  exactly one error, released every node it acquired and not called
  \<^verbatim>\<open>createFilter\<close>; one that succeeds has reported no error, released no node and
  called it; one that ends in the read of a null format has reported no error,
  released no node and not called it.
\<close>

definition create_effects :: "create_event list \<times> outcome \<Rightarrow> bool" where
  "create_effects res =
     (case snd res of
        Failed \<Rightarrow>
          length (errors (fst res)) = 1 \<and> released (fst res) = acquired (fst res) \<and>
          CreateFilter \<notin> set (fst res)
      | Created d \<Rightarrow> errors (fst res) = [] \<and> released (fst res) = [] \<and> CreateFilter \<in> set (fst res)
      | NullDereference \<Rightarrow>
          errors (fst res) = [] \<and> released (fst res) = [] \<and> CreateFilter \<notin> set (fst res))"

definition failed :: "create_event list \<times> outcome \<Rightarrow> bool" where
  "failed res = (case snd res of Failed \<Rightarrow> True | _ \<Rightarrow> False)"

text \<open>The arrays of instance data not yet filled.\<close>

definition zeroed :: "BM3DData \<Rightarrow> bool" where
  "zeroed d =
     (sigma d = [Finite 0, Finite 0, Finite 0] \<and> process d = [False, False, False] \<and>
      block_step d = [0, 0, 0] \<and> bm_range d = [0, 0, 0] \<and> ps_num d = [0, 0, 0] \<and>
      ps_range d = [0, 0, 0])"

text \<open>The sigmas and the process flags of a created instance.\<close>

definition sigma_of :: "create_event list \<times> outcome \<Rightarrow> ieee list option" where
  "sigma_of res = (case snd res of Created d \<Rightarrow> Some (sigma d) | _ \<Rightarrow> None)"

definition process_of :: "create_event list \<times> outcome \<Rightarrow> bool list option" where
  "process_of res = (case snd res of Created d \<Rightarrow> Some (process d) | _ \<Rightarrow> None)"

section \<open>Ranges and example inputs\<close>

text \<open>
  The theorems that follow an \<^verbatim>\<open>int\<close> computation of the source assume that its result
  fits the 32-bit \<^verbatim>\<open>int\<close>.
\<close>

definition fits_int :: "int \<Rightarrow> bool" where
  "fits_int x = (- 2147483648 \<le> x \<and> x \<le> 2147483647)"

text \<open>
  A three-plane clip of ten frames with a reference clip, radius 2, per-plane mode,
  the second plane not processed.
\<close>

definition example_data :: BM3DData where
  "example_data =
     \<lparr>node = 7, ref_node = Some 8,
      vi = \<lparr>format = Some \<lparr>format_id = 1, sampleType = stFloat, bitsPerSample = 32,
                           numPlanes = 3\<rparr>,
            width = 64, height = 48, numFrames = 10\<rparr>,
      sigma = [Finite 1, Finite 0, Finite 1],
      block_step = [8, 7, 6], bm_range = [9, 10, 11], radius = 2,
      ps_num = [2, 3, 4], ps_range = [4, 5, 6], chroma = False,
      process = [True, False, True], buffer = Map.empty\<rparr>"

definition example_api :: VSAPI where
  "example_api =
     \<lparr>getFrameWidth = (\<lambda>f p. 64), getFrameHeight = (\<lambda>f p. 48), getStride = (\<lambda>f p. 256),
      getVideoInfo = (\<lambda>nd. vi example_data), newFrameStride = (\<lambda>fmt w p. 4 * w),
      pfYUV444PS = 1\<rparr>"

definition example_state :: state where
  "example_state = \<lparr>instanceData = example_data, next_address = 100, trace = []\<rparr>"

text \<open>The same clip filtered with radius 0.\<close>

definition example_spatial :: state where
  "example_spatial =
     \<lparr>instanceData = example_data\<lparr>radius := 0\<rparr>, next_address = 100, trace = []\<rparr>"


text \<open>The same clip in joint-chroma mode with radius 0, no plane marked for processing.\<close>

definition example_joint :: state where
  "example_joint =
     \<lparr>instanceData = example_data\<lparr>radius := 0, chroma := True, process := [False, False, False]\<rparr>,
      next_address = 100, trace = []\<rparr>"

text \<open>
  A call with the clip alone, every parameter left to its default, and a host whose
  reference clip (node 8) is one frame shorter than the clip.
\<close>

definition default_args :: VSMap_in where
  "default_args =
     \<lparr>arg_clip = 7, arg_ref = None, arg_sigma = [], arg_block_step = [], arg_bm_range = [],
      arg_radius = [], arg_ps_num = [], arg_ps_range = [], arg_chroma = []\<rparr>"

definition mismatch_api :: VSAPI where
  "mismatch_api =
     example_api\<lparr>getVideoInfo :=
       (\<lambda>nd. if nd = 8 then (vi example_data)\<lparr>numFrames := 9\<rparr> else vi example_data)\<rparr>"

text \<open>A host whose reference clip (node 8) has a variable format: its format is null.\<close>

definition variable_ref_api :: VSAPI where
  "variable_ref_api =
     example_api\<lparr>getVideoInfo :=
       (\<lambda>nd. if nd = 8 then (vi example_data)\<lparr>format := None\<rparr> else vi example_data)\<rparr>"

section \<open>Properties of the frame window\<close>

lemma request_loop_upto:
  "request_loop i end_frame nd = map (\<lambda>k. RequestFrameFilter k nd) [i..end_frame]"
proof (induction i end_frame nd rule: request_loop.induct)
  case (1 i end_frame nd)
  show ?case
  proof (cases "i \<le> end_frame")
    case True
    with "1" show ?thesis
      by (subst request_loop.simps) (simp add: upto_rec1 [of i end_frame])
  next
    case False
    then show ?thesis
      by (subst request_loop.simps) simp
  qed
qed

lemma fetch_loop_upto:
  "fetch_loop i d n nd =
     map (\<lambda>k. FrameOf nd (clamp (n + k) 0 (numFrames (vi d) - 1))) [i..radius d]"
proof (induction i d n nd rule: fetch_loop.induct)
  case (1 i d n nd)
  show ?case
  proof (cases "i \<le> radius d")
    case True
    with "1" show ?thesis
      by (subst fetch_loop.simps) (simp add: upto_rec1 [of i "radius d"])
  next
    case False
    then show ?thesis
      by (subst fetch_loop.simps) simp
  qed
qed

lemma src_frames_closed:
  "src_frames d n =
     map (\<lambda>i. FrameOf (node d) (clamp (n + i) 0 (numFrames (vi d) - 1))) [- radius d..radius d]"
  by (simp add: src_frames_def fetch_loop_upto)

lemma ref_frames_closed:
  "ref_frames d n =
     (case ref_node d of
        None \<Rightarrow> []
      | Some r \<Rightarrow>
          map (\<lambda>i. FrameOf r (clamp (n + i) 0 (numFrames (vi d) - 1))) [- radius d..radius d])"
  by (simp add: ref_frames_def fetch_loop_upto split: option.splits)

lemma clamp_bounds: "lo \<le> hi \<Longrightarrow> lo \<le> clamp v lo hi \<and> clamp v lo hi \<le> hi"
  by (simp add: clamp_def)

lemma clamp_id: "lo \<le> v \<Longrightarrow> v \<le> hi \<Longrightarrow> clamp v lo hi = v"
  by (simp add: clamp_def)

lemma window_nth:
  assumes "- r \<le> i" "i \<le> r"
  shows "map f [- r..r] ! nat (i + r) = f i"
proof -
  have "nat (i + r) < length [- r..r]" using assms by simp
  moreover have "[- r..r] ! nat (i + r) = i" using assms by (simp add: nth_upto)
  ultimately show ?thesis by simp
qed

section \<open>The compute phase in closed form\<close>

lemma plane_loop_fold:
  "plane_loop api tid srcs refs src_frame np plane fs =
     fold (plane_body api tid srcs refs src_frame) [plane..np - 1] fs"
proof (induction api tid srcs refs src_frame np plane fs rule: plane_loop.induct)
  case (1 api tid srcs refs src_frame np plane fs)
  show ?case
  proof (cases "plane < np")
    case True
    with "1" show ?thesis
      by (subst plane_loop.simps) (simp add: upto_rec1 [of plane "np - 1"])
  next
    case False
    then show ?thesis
      by (subst plane_loop.simps) simp
  qed
qed

lemma plane_events_buffer [simp]:
  "plane_events api (d\<lparr>buffer := m\<rparr>) = plane_events api d"
  by (intro ext) (simp add: plane_events_def clear_memory_def dispatch_def)

lemma plane_body_skip:
  "\<not> process (instanceData (snd fs)) ! nat plane \<Longrightarrow>
     plane_body api tid srcs refs src_frame plane fs = fs"
  by (simp add: plane_body_def Let_def)

lemma plane_body_run:
  assumes "process (instanceData s) ! nat plane"
  shows "plane_body api tid srcs refs src_frame plane (f, s) =
           planes_result api tid srcs refs src_frame [plane] (f, s)"
  using assms
  by (simp add: plane_body_def planes_result_def plane_events_def get_buffer_def scratch_of_def
      Let_def num_planes_def split: option.splits)

lemma fold_plane_body:
  "fold (plane_body api tid srcs refs src_frame) xs (f, s) =
     planes_result api tid srcs refs src_frame
       (filter (\<lambda>p. process (instanceData s) ! nat p) xs) (f, s)"
proof (induction xs arbitrary: f s)
  case Nil
  show ?case by (simp add: planes_result_def Let_def)
next
  case (Cons x xs)
  show ?case
  proof (cases "process (instanceData s) ! nat x")
    case False
    with Cons show ?thesis by (simp add: plane_body_skip)
  next
    case True
    obtain f' s' where r: "planes_result api tid srcs refs src_frame [x] (f, s) = (f', s')"
      by (cases "planes_result api tid srcs refs src_frame [x] (f, s)")
    have p: "process (instanceData s') = process (instanceData s)"
      using r by (auto simp: planes_result_def Let_def split: if_splits)
    have "fold (plane_body api tid srcs refs src_frame) (x # xs) (f, s) =
        planes_result api tid srcs refs src_frame
          (filter (\<lambda>p. process (instanceData s) ! nat p) xs) (f', s')"
      using True r Cons [of f' s'] by (simp add: plane_body_run p)
    also have "\<dots> = planes_result api tid srcs refs src_frame
          (x # filter (\<lambda>p. process (instanceData s) ! nat p) xs) (f, s)"
      using r
      by (auto simp: planes_result_def Let_def scratch_of_def split: if_splits option.splits)
    finally show ?thesis using True by simp
  qed
qed

lemma getWritePtr_fields [simp]:
  "frame_format (getWritePtr f p) = frame_format f"
  "frame_width (getWritePtr f p) = frame_width f"
  "frame_height (getWritePtr f p) = frame_height f"
  "frame_props (getWritePtr f p) = frame_props f"
  "frame_propSrc (getWritePtr f p) = frame_propSrc f"
  "length (frame_planes (getWritePtr f p)) = length (frame_planes f)"
  by (simp_all add: getWritePtr_def)

lemma foldl_getWritePtr_fields [simp]:
  "frame_format (foldl getWritePtr f ps) = frame_format f"
  "frame_width (foldl getWritePtr f ps) = frame_width f"
  "frame_height (foldl getWritePtr f ps) = frame_height f"
  "frame_props (foldl getWritePtr f ps) = frame_props f"
  "frame_propSrc (foldl getWritePtr f ps) = frame_propSrc f"
  "length (frame_planes (foldl getWritePtr f ps)) = length (frame_planes f)"
  by (induction ps arbitrary: f) simp_all

lemma plane_loop_closed:
  "plane_loop api tid srcs refs src_frame np plane (f, s) =
     planes_result api tid srcs refs src_frame
       (filter (\<lambda>p. process (instanceData s) ! nat p) [plane..np - 1]) (f, s)"
  by (simp add: plane_loop_fold fold_plane_body)

lemma make_dst_frame_fields [simp]:
  "frame_format (make_dst_frame d fmt src_frame) = fmt"
  "frame_width (make_dst_frame d fmt src_frame) = width (vi d)"
  "frame_height (make_dst_frame d fmt src_frame) =
     (if radius d = 0 then height (vi d) else height (vi d) * 2 * (2 * radius d + 1))"
  "frame_props (make_dst_frame d fmt src_frame) = []"
  by (simp_all add: make_dst_frame_def newVideoFrame2_def newVideoFrame_def)

lemma propSet_fields [simp]:
  "frame_format (propSet f k v) = frame_format f"
  "frame_width (propSet f k v) = frame_width f"
  "frame_height (propSet f k v) = frame_height f"
  "frame_planes (propSet f k v) = frame_planes f"
  by (simp_all add: propSet_def)

lemma body_frame_fields:
  "frame_format (fst (chroma_path api tid srcs refs src_frame (f, s))) = frame_format f"
  "frame_width (fst (chroma_path api tid srcs refs src_frame (f, s))) = frame_width f"
  "frame_height (fst (chroma_path api tid srcs refs src_frame (f, s))) = frame_height f"
  "frame_props (fst (chroma_path api tid srcs refs src_frame (f, s))) = frame_props f"
  "frame_format (fst (plane_loop api tid srcs refs src_frame np plane (f, s))) = frame_format f"
  "frame_width (fst (plane_loop api tid srcs refs src_frame np plane (f, s))) = frame_width f"
  "frame_height (fst (plane_loop api tid srcs refs src_frame np plane (f, s))) = frame_height f"
  "frame_props (fst (plane_loop api tid srcs refs src_frame np plane (f, s))) = frame_props f"
  by (simp_all add: chroma_path_def plane_loop_closed planes_result_def Let_def)

lemma getframe_returns:
  assumes "instanceData s = d" "format (vi d) = Some fmt" "0 \<le> radius d"
    "chroma d \<or> numPlanes fmt \<le> 3"
  shows "BM3DGetFrame api tid n arAllFramesReady s =
     (Inr (Some (fst (all_frames_ready api tid n fmt s))), snd (all_frames_ready api tid n fmt s))"
  using assms by (auto simp: BM3DGetFrame_def Let_def)

lemma all_frames_ready_fields:
  "frame_format (fst (all_frames_ready api tid n fmt s)) = fmt"
  "frame_width (fst (all_frames_ready api tid n fmt s)) = width (vi (instanceData s))"
  "frame_height (fst (all_frames_ready api tid n fmt s)) =
     (if radius (instanceData s) = 0 then height (vi (instanceData s))
      else height (vi (instanceData s)) * 2 * (2 * radius (instanceData s) + 1))"
  by (simp_all add: all_frames_ready_def Let_def body_frame_fields)

lemma all_frames_ready_props:
  "frame_props (fst (all_frames_ready api tid n fmt s)) =
     (let d = instanceData s in
      if radius d \<noteq> 0
      then [(''BM3D_V_radius'', PropInt (radius d)),
            (''BM3D_V_process'',
             PropIntArray [int_of_bool (process d ! 0), int_of_bool (process d ! 1),
               int_of_bool (process d ! 2)])]
      else [])"
  by (simp add: all_frames_ready_def Let_def body_frame_fields propSet_def)

lemma chroma_path_trace:
  "trace (snd (chroma_path api tid srcs refs src_frame (f, s))) =
     trace s @
     (if radius (instanceData s) = 0 \<and> buffer (instanceData s) tid = None
      then [AlignedMalloc (next_address s)
              (4 * (getStride api src_frame 0 div 4) * getFrameHeight api src_frame 0 * 2 *
               num_planes True)]
      else []) @
     joint_events api (instanceData s) srcs refs src_frame
       (if radius (instanceData s) = 0 then Some (BufferPtr (scratch_of s tid)) else None)"
  by (simp add: chroma_path_def joint_events_def get_buffer_def scratch_of_def Let_def
      split: option.splits)

lemma scratch_of_trace [simp]: "scratch_of (s\<lparr>trace := t\<rparr>) tid = scratch_of s tid"
  by (simp add: scratch_of_def split: option.splits)

lemma all_frames_ready_trace:
  "trace (snd (all_frames_ready api tid n fmt s)) = trace s @ compute_events api tid n fmt s"
proof (cases "chroma (instanceData s)")
  case True
  then show ?thesis
    by (simp add: all_frames_ready_def compute_events_def chroma_path_trace Let_def)
next
  case False
  then show ?thesis
    by (simp add: all_frames_ready_def compute_events_def plane_loop_closed planes_result_def
        Let_def)
qed

lemma frame_events_run:
  assumes "instanceData s = d" "format (vi d) = Some fmt" "0 \<le> radius d"
    "chroma d \<or> numPlanes fmt \<le> 3"
    and "BM3DGetFrame api tid n arAllFramesReady s = (r, s')"
  shows "frame_events s s' = compute_events api tid n fmt s"
    and "trace s' = trace s @ compute_events api tid n fmt s"
  using assms(5) getframe_returns [OF assms(1-4), of api tid n]
  by (auto simp: frame_events_def all_frames_ready_trace)

lemma kernel_calls_append [simp]:
  "kernel_calls (xs @ ys) = kernel_calls xs @ kernel_calls ys"
  by (induction xs rule: kernel_calls.induct) simp_all

lemma kernel_calls_none [simp]:
  "kernel_calls (map FreeFrame fs) = []"
  "kernel_calls (map (\<lambda>f. case f of FrameOf nd k \<Rightarrow> GetFrameFilter k nd) fs) = []"
  "kernel_calls (map (\<lambda>p. Memset p m) ps) = []"
  by (induction fs, simp_all split: VSFrameRef.splits) (induction ps, simp_all)

lemma kernel_calls_clear [simp]: "kernel_calls (clear_memory c d b dstps st h) = []"
  by (simp add: clear_memory_def split: option.splits)

lemma dispatch_expected_joint:
  assumes "0 \<le> radius d" "radius d \<noteq> 0 \<longrightarrow> b = None"
  shows "dispatch True d [WritePtr 0, WritePtr 1, WritePtr 2]
        (getStride api (src_frames d n ! nat (radius d)) 0 div 4)
        (concat (map (\<lambda>plane. map (\<lambda>frame. ReadPtr frame plane) (src_frames d n)) [0, 1, 2]))
        (concat (map (\<lambda>plane. map (\<lambda>frame. ReadPtr frame plane) (ref_frames d n)) [0, 1, 2]))
        (getFrameWidth api (src_frames d n ! nat (radius d)) 0)
        (getFrameHeight api (src_frames d n ! nat (radius d)) 0)
        (sigma d) (block_step d ! 0) (bm_range d ! 0) (ps_num d ! 0) (ps_range d ! 0) b =
      expected_joint_call api d n b"
  using assms by (auto simp: dispatch_def expected_joint_call_def Let_def)

lemma dispatch_expected_plane:
  assumes "0 \<le> radius d" "radius d \<noteq> 0 \<longrightarrow> b = None"
  shows "dispatch False d [WritePtr plane]
        (getStride api (src_frames d n ! nat (radius d)) plane div 4)
        (map (\<lambda>frame. ReadPtr frame plane) (src_frames d n))
        (map (\<lambda>frame. ReadPtr frame plane) (ref_frames d n))
        (getFrameWidth api (src_frames d n ! nat (radius d)) plane)
        (getFrameHeight api (src_frames d n ! nat (radius d)) plane)
        [sigma d ! nat plane] (block_step d ! nat plane) (bm_range d ! nat plane)
        (ps_num d ! nat plane) (ps_range d ! nat plane) b =
      expected_plane_call api d n b plane"
  using assms by (auto simp: dispatch_def expected_plane_call_def Let_def)

lemma kernel_calls_planes:
  "kernel_calls (concat (map (plane_events api d srcs refs src_frame b) ps)) =
     map (\<lambda>plane. dispatch False d [WritePtr plane] (getStride api src_frame plane div 4)
        (map (\<lambda>frame. ReadPtr frame plane) srcs) (map (\<lambda>frame. ReadPtr frame plane) refs)
        (getFrameWidth api src_frame plane) (getFrameHeight api src_frame plane)
        [sigma d ! nat plane] (block_step d ! nat plane) (bm_range d ! nat plane)
        (ps_num d ! nat plane) (ps_range d ! nat plane) b) ps"
  by (induction ps) (simp_all add: plane_events_def)

lemma kernel_calls_compute:
  assumes "0 \<le> radius (instanceData s)"
  shows "kernel_calls (compute_events api tid n fmt s) =
     (if chroma (instanceData s)
      then [expected_joint_call api (instanceData s) n (worker_buffer s tid)]
      else map (expected_plane_call api (instanceData s) n (worker_buffer s tid))
             (filter (\<lambda>p. process (instanceData s) ! nat p) [0..numPlanes fmt - 1]))"
proof -
  have b: "radius (instanceData s) \<noteq> 0 \<longrightarrow> worker_buffer s tid = None"
    by (simp add: worker_buffer_def)
  show ?thesis
    using dispatch_expected_joint [OF assms b, of api n]
      dispatch_expected_plane [OF assms b, of _ api n]
    by (simp add: compute_events_def Let_def joint_events_def kernel_calls_planes
        worker_buffer_def)
qed

lemma all_frames_ready_data:
  "instanceData (snd (all_frames_ready api tid n fmt s)) =
     (if radius (instanceData s) = 0 \<and> buffer (instanceData s) tid = None \<and>
         kernel_calls (compute_events api tid n fmt s) \<noteq> []
      then (instanceData s)\<lparr>buffer := (buffer (instanceData s))(tid \<mapsto> next_address s)\<rparr>
      else instanceData s)"
proof (cases "chroma (instanceData s)")
  case True
  then show ?thesis
    by (simp add: all_frames_ready_def compute_events_def chroma_path_def get_buffer_def
        joint_events_def Let_def split: option.splits)
next
  case False
  then show ?thesis
    by (simp add: all_frames_ready_def compute_events_def plane_loop_closed planes_result_def
        kernel_calls_planes Let_def)
qed


lemma cleared_scan_quiet [simp]:
  "cleared_scan h (map FreeFrame fs)"
  "cleared_scan h (map (\<lambda>f. case f of FrameOf nd k \<Rightarrow> GetFrameFilter k nd) fs)"
  by (induction fs arbitrary: h) (simp_all split: VSFrameRef.splits)





lemma allocations_append [simp]: "allocations (xs @ ys) = allocations xs @ allocations ys"
  by (induction xs rule: allocations.induct) simp_all

lemma allocations_none [simp]:
  "allocations (map FreeFrame fs) = []"
  "allocations (map (\<lambda>f. case f of FrameOf nd k \<Rightarrow> GetFrameFilter k nd) fs) = []"
  "allocations (map (\<lambda>p. Memset p m) ps) = []"
  "allocations (clear_memory c d b dstps st h) = []"
  "allocations (joint_events api d srcs refs src_frame b) = []"
  "allocations (concat (map (plane_events api d srcs refs src_frame b) qs)) = []"
proof -
  show "allocations (map FreeFrame fs) = []" by (induction fs) simp_all
  show "allocations (map (\<lambda>f. case f of FrameOf nd k \<Rightarrow> GetFrameFilter k nd) fs) = []"
    by (induction fs) (simp_all split: VSFrameRef.splits)
  show m: "allocations (map (\<lambda>p. Memset p m) ps) = []" for m ps by (induction ps) simp_all
  show c: "allocations (clear_memory c d b dstps st h) = []" for c d b dstps st h
    by (simp add: clear_memory_def m split: option.splits)
  show "allocations (joint_events api d srcs refs src_frame b) = []"
    by (simp add: joint_events_def c)
  show "allocations (concat (map (plane_events api d srcs refs src_frame b) qs)) = []"
    by (induction qs) (simp_all add: plane_events_def c)
qed

lemma cleared_pointers_append [simp]:
  "cleared_pointers (xs @ ys) = cleared_pointers xs @ cleared_pointers ys"
  by (induction xs rule: cleared_pointers.induct) simp_all

lemma cleared_pointers_quiet [simp]:
  "cleared_pointers (map FreeFrame fs) = []"
  "cleared_pointers (map (\<lambda>f. case f of FrameOf nd k \<Rightarrow> GetFrameFilter k nd) fs) = []"
  "cleared_pointers (map (\<lambda>p. Memset p m) ps) = ps"
  by (induction fs, simp_all split: VSFrameRef.splits) (induction ps, simp_all)

lemma cleared_pointers_clear:
  "cleared_pointers (clear_memory c d b dstps st h) =
     (if radius d = 0 then (case b of None \<Rightarrow> [] | Some p \<Rightarrow> [p]) else dstps)"
  by (simp add: clear_memory_def split: option.splits)

lemma cleared_pointers_planes:
  "cleared_pointers (concat (map (plane_events api d srcs refs src_frame b) ps)) =
     (if radius d = 0 then (case b of None \<Rightarrow> [] | Some p \<Rightarrow> map (\<lambda>q. p) ps)
      else map WritePtr ps)"
  by (induction ps) (simp_all add: plane_events_def cleared_pointers_clear split: option.splits)

lemma cleared_pointers_compute:
  assumes "0 \<le> radius (instanceData s)"
  shows "cleared_pointers (compute_events api tid n fmt s) =
     (if radius (instanceData s) = 0
      then map (\<lambda>c. BufferPtr (scratch_of s tid)) (kernel_calls (compute_events api tid n fmt s))
      else concat (map bm3d_dstps (kernel_calls (compute_events api tid n fmt s))))"
proof -
  have "concat (map bm3d_dstps (map (expected_plane_call api d n b) ps)) = map WritePtr ps"
    for d b ps
    by (induction ps) (simp_all add: expected_plane_call_def Let_def)
  then show ?thesis
    using assms
    by (simp add: kernel_calls_compute)
      (simp add: compute_events_def Let_def joint_events_def cleared_pointers_clear
        cleared_pointers_planes expected_joint_call_def)
qed






lemma foldl_getWritePtr_other:
  assumes "0 \<le> i" "\<forall>p \<in> set ps. 0 \<le> p \<and> p \<noteq> i"
  shows "frame_planes (foldl getWritePtr f ps) ! nat i = frame_planes f ! nat i"
  using assms
proof (induction ps arbitrary: f)
  case Nil
  show ?case by simp
next
  case (Cons p ps)
  from Cons.prems have "nat p \<noteq> nat i" by auto
  then have "frame_planes (getWritePtr f p) ! nat i = frame_planes f ! nat i"
    by (simp add: getWritePtr_def)
  with Cons show ?case by simp
qed

lemma all_frames_ready_planes:
  assumes "\<not> chroma (instanceData s)"
  shows "frame_planes (fst (all_frames_ready api tid n fmt s)) =
     frame_planes (foldl getWritePtr
       (make_dst_frame (instanceData s) fmt
          (src_frames (instanceData s) n ! nat (radius (instanceData s))))
       (filter (\<lambda>p. process (instanceData s) ! nat p) [0..numPlanes fmt - 1]))"
  using assms
  by (simp add: all_frames_ready_def plane_loop_closed planes_result_def Let_def)

lemma make_dst_frame_shared:
  assumes "radius d = 0" "0 \<le> i" "i < numPlanes fmt" "numPlanes fmt \<le> 3"
    "\<not> process d ! nat i"
  shows "frame_planes (make_dst_frame d fmt src_frame) ! nat i = SharedPlane src_frame i"
proof -
  from assms have "i = 0 \<or> i = 1 \<or> i = 2" by arith
  moreover have "nat i < nat (numPlanes fmt)" using assms by simp
  ultimately show ?thesis
    using assms by (auto simp: make_dst_frame_def newVideoFrame2_def)
qed

lemma example_values:
  "instanceData example_state = example_data"
  "instanceData example_spatial = example_data\<lparr>radius := 0\<rparr>"
  "format (vi example_data) =
     Some \<lparr>format_id = 1, sampleType = stFloat, bitsPerSample = 32, numPlanes = 3\<rparr>"
  "radius example_data = 2" "width (vi example_data) = 64" "height (vi example_data) = 48"
  "numFrames (vi example_data) = 10" "chroma example_data = False"
  "process example_data = [True, False, True]"
  "node example_data = 7" "ref_node example_data = Some 8"
  "trace example_state = []" "trace example_spatial = []"
  by (simp_all add: example_state_def example_spatial_def example_data_def)

lemma example_joint_values:
  "instanceData example_joint =
     example_data\<lparr>radius := 0, chroma := True, process := [False, False, False]\<rparr>"
  "trace example_joint = []"
  by (simp_all add: example_joint_def)



lemma fetched_append [simp]: "fetched (xs @ ys) = fetched xs @ fetched ys"
  by (induction xs rule: fetched.induct) simp_all

lemma freed_append [simp]: "freed (xs @ ys) = freed xs @ freed ys"
  by (induction xs rule: freed.induct) simp_all

lemma fetched_pieces [simp]:
  "fetched (map FreeFrame fs) = []"
  "fetched (map (\<lambda>f. case f of FrameOf nd k \<Rightarrow> GetFrameFilter k nd) fs) = fs"
  "fetched (clear_memory c d b dstps st h) = []"
  "fetched (joint_events api d srcs refs src_frame b) = []"
  "fetched (concat (map (plane_events api d srcs refs src_frame b) qs)) = []"
proof -
  show "fetched (map FreeFrame fs) = []" by (induction fs) simp_all
  show "fetched (map (\<lambda>f. case f of FrameOf nd k \<Rightarrow> GetFrameFilter k nd) fs) = fs"
    by (induction fs) (simp_all split: VSFrameRef.splits)
  have m: "fetched (map (\<lambda>p. Memset p m) ps) = []" for m ps by (induction ps) simp_all
  show c: "fetched (clear_memory c d b dstps st h) = []" for c d b dstps st h
    by (simp add: clear_memory_def m split: option.splits)
  show "fetched (joint_events api d srcs refs src_frame b) = []"
    by (simp add: joint_events_def c)
  show "fetched (concat (map (plane_events api d srcs refs src_frame b) qs)) = []"
    by (induction qs) (simp_all add: plane_events_def c)
qed

lemma freed_pieces [simp]:
  "freed (map FreeFrame fs) = fs"
  "freed (map (\<lambda>f. case f of FrameOf nd k \<Rightarrow> GetFrameFilter k nd) fs) = []"
  "freed (clear_memory c d b dstps st h) = []"
  "freed (joint_events api d srcs refs src_frame b) = []"
  "freed (concat (map (plane_events api d srcs refs src_frame b) qs)) = []"
proof -
  show "freed (map FreeFrame fs) = fs" by (induction fs) simp_all
  show "freed (map (\<lambda>f. case f of FrameOf nd k \<Rightarrow> GetFrameFilter k nd) fs) = []"
    by (induction fs) (simp_all split: VSFrameRef.splits)
  have m: "freed (map (\<lambda>p. Memset p m) ps) = []" for m ps by (induction ps) simp_all
  show c: "freed (clear_memory c d b dstps st h) = []" for c d b dstps st h
    by (simp add: clear_memory_def m split: option.splits)
  show "freed (joint_events api d srcs refs src_frame b) = []"
    by (simp add: joint_events_def c)
  show "freed (concat (map (plane_events api d srcs refs src_frame b) qs)) = []"
    by (induction qs) (simp_all add: plane_events_def c)
qed

lemma window_compute:
  "fetched (compute_events api tid n fmt s) =
     src_frames (instanceData s) n @ ref_frames (instanceData s) n"
  "freed (compute_events api tid n fmt s) =
     src_frames (instanceData s) n @ ref_frames (instanceData s) n"
  by (simp_all add: compute_events_def Let_def)

section \<open>The frame window of a call\<close>

text \<open>
  C1. For a requested index \<open>n\<close> of a clip of \<open>N\<close> frames and radius \<open>R\<close>, the announce
  phase requests the indices \<open>max (n - R) 0, ..., min (n + R) (N - 1)\<close>, each once and in
  this order, on the source node, and then the same indices on the reference node
  when there is one. The fetch phase builds a window of \<open>2 * R + 1\<close> source frames whose
  entry for the offset \<open>i\<close> in \<open>[-R, R]\<close> (at position \<open>i + R\<close>) is the frame at the index
  \<open>clamp (n + i) 0 (N - 1)\<close>, which lies in \<open>[0, N)\<close>; the entry at position \<open>R\<close> is the
  frame \<open>n\<close>. With a reference node the reference window has the same length and the
  same clamped indices; without one it is empty. The frames a compute phase fetches
  from the host are those of the two windows, in this order, and it releases the
  same frames.
\<close>

theorem frame_window:
  assumes d: "instanceData s = d"
    and R: "0 \<le> radius d" and n: "0 \<le> n" "n < numFrames (vi d)"
    and range: "fits_int (n + radius d)" "fits_int (2 * radius d + 1)"
  shows
    "BM3DGetFrame api tid n arInitial s =
       (Inr None,
        s\<lparr>trace := trace s @
           map (\<lambda>k. RequestFrameFilter k (node d))
             [max (n - radius d) 0..min (n + radius d) (numFrames (vi d) - 1)] @
           (case ref_node d of
              None \<Rightarrow> []
            | Some r \<Rightarrow>
                map (\<lambda>k. RequestFrameFilter k r)
                  [max (n - radius d) 0..min (n + radius d) (numFrames (vi d) - 1)])\<rparr>) \<and>
     distinct [max (n - radius d) 0..min (n + radius d) (numFrames (vi d) - 1)] \<and>
     set [max (n - radius d) 0..min (n + radius d) (numFrames (vi d) - 1)] =
       {k. max (n - radius d) 0 \<le> k \<and> k \<le> min (n + radius d) (numFrames (vi d) - 1)} \<and>
     length (src_frames d n) = nat (2 * radius d + 1) \<and>
     (\<forall>i. - radius d \<le> i \<and> i \<le> radius d \<longrightarrow>
        src_frames d n ! nat (i + radius d) =
          FrameOf (node d) (clamp (n + i) 0 (numFrames (vi d) - 1)) \<and>
        0 \<le> clamp (n + i) 0 (numFrames (vi d) - 1) \<and>
        clamp (n + i) 0 (numFrames (vi d) - 1) < numFrames (vi d)) \<and>
     src_frames d n ! nat (radius d) = FrameOf (node d) n \<and>
     (case ref_node d of
        None \<Rightarrow> ref_frames d n = []
      | Some r \<Rightarrow>
          length (ref_frames d n) = length (src_frames d n) \<and>
          (\<forall>i. - radius d \<le> i \<and> i \<le> radius d \<longrightarrow>
             ref_frames d n ! nat (i + radius d) =
               FrameOf r (clamp (n + i) 0 (numFrames (vi d) - 1)))) \<and>
     (\<forall>fmt r s'. format (vi d) = Some fmt \<and> (chroma d \<or> numPlanes fmt \<le> 3) \<and>
        BM3DGetFrame api tid n arAllFramesReady s = (r, s') \<longrightarrow>
        fetched (frame_events s s') = src_frames d n @ ref_frames d n \<and>
        freed (frame_events s s') = src_frames d n @ ref_frames d n)"
proof -
  let ?lo = "max (n - radius d) 0" and ?hi = "min (n + radius d) (numFrames (vi d) - 1)"
  let ?N = "numFrames (vi d)"
  have announce: "BM3DGetFrame api tid n arInitial s =
       (Inr None,
        s\<lparr>trace := trace s @
           map (\<lambda>k. RequestFrameFilter k (node d)) [?lo..?hi] @
           (case ref_node d of
              None \<Rightarrow> []
            | Some r \<Rightarrow> map (\<lambda>k. RequestFrameFilter k r) [?lo..?hi])\<rparr>)"
    using d by (simp add: BM3DGetFrame_def announce_def request_loop_upto Let_def
        split: option.splits)
  have set: "set [?lo..?hi] = {k. ?lo \<le> k \<and> k \<le> ?hi}"
    by auto
  have len: "length (src_frames d n) = nat (2 * radius d + 1)"
    using R by (simp add: src_frames_closed)
  have nth: "src_frames d n ! nat (i + radius d) =
          FrameOf (node d) (clamp (n + i) 0 (?N - 1)) \<and>
        0 \<le> clamp (n + i) 0 (?N - 1) \<and> clamp (n + i) 0 (?N - 1) < ?N"
    if "- radius d \<le> i \<and> i \<le> radius d" for i
  proof -
    have "0 \<le> ?N - 1" using n by simp
    from clamp_bounds [OF this, of "n + i"] window_nth [of "radius d" i] that
    show ?thesis by (simp add: src_frames_closed)
  qed
  have center: "src_frames d n ! nat (radius d) = FrameOf (node d) n"
  proof -
    have "clamp (n + 0) 0 (?N - 1) = n" using n by (simp add: clamp_id)
    with nth [of 0] R show ?thesis by simp
  qed
  have refs: "(case ref_node d of
        None \<Rightarrow> ref_frames d n = []
      | Some r \<Rightarrow>
          length (ref_frames d n) = length (src_frames d n) \<and>
          (\<forall>i. - radius d \<le> i \<and> i \<le> radius d \<longrightarrow>
             ref_frames d n ! nat (i + radius d) =
               FrameOf r (clamp (n + i) 0 (?N - 1))))"
    by (simp add: ref_frames_closed src_frames_closed window_nth split: option.splits)
  have compute: "fetched (frame_events s s') = src_frames d n @ ref_frames d n \<and>
      freed (frame_events s s') = src_frames d n @ ref_frames d n"
    if "format (vi d) = Some fmt \<and> (chroma d \<or> numPlanes fmt \<le> 3) \<and>
        BM3DGetFrame api tid n arAllFramesReady s = (r, s')" for fmt r s'
  proof -
    from that have "frame_events s s' = compute_events api tid n fmt s"
      by (intro frame_events_run(1) [OF d _ R]) simp_all
    then show ?thesis using d by (simp add: window_compute)
  qed
  have nth': "\<forall>i. - radius d \<le> i \<and> i \<le> radius d \<longrightarrow>
        src_frames d n ! nat (i + radius d) =
          FrameOf (node d) (clamp (n + i) 0 (?N - 1)) \<and>
        0 \<le> clamp (n + i) 0 (?N - 1) \<and> clamp (n + i) 0 (?N - 1) < ?N"
    using nth by blast
  have compute': "\<forall>fmt r s'. format (vi d) = Some fmt \<and> (chroma d \<or> numPlanes fmt \<le> 3) \<and>
        BM3DGetFrame api tid n arAllFramesReady s = (r, s') \<longrightarrow>
        fetched (frame_events s s') = src_frames d n @ ref_frames d n \<and>
        freed (frame_events s s') = src_frames d n @ ref_frames d n"
    using compute by blast
  show ?thesis
    by (intro conjI) (fact announce distinct_upto set len nth' center refs compute')+
qed

text \<open>
  The window of the example at the first frame: the offsets \<open>-2\<close>, \<open>-1\<close> and \<open>0\<close> all
  give the frame 0.
\<close>

theorem frame_window_witness:
  "BM3DGetFrame example_api 0 0 arInitial example_state =
     (Inr None,
      example_state\<lparr>trace :=
        [RequestFrameFilter 0 7, RequestFrameFilter 1 7, RequestFrameFilter 2 7,
         RequestFrameFilter 0 8, RequestFrameFilter 1 8, RequestFrameFilter 2 8]\<rparr>) \<and>
   length (src_frames example_data 0) = 5 \<and>
   src_frames example_data 0 ! 0 = FrameOf 7 0 \<and>
   src_frames example_data 0 ! 2 = FrameOf 7 0 \<and>
   src_frames example_data 0 ! 4 = FrameOf 7 2 \<and>
   ref_frames example_data 0 ! 4 = FrameOf 8 2 \<and>
   fetched (frame_events example_state
      (snd (BM3DGetFrame example_api 0 0 arAllFramesReady example_state))) =
     src_frames example_data 0 @ ref_frames example_data 0"
proof -
  have h: "instanceData example_state = example_data" "0 \<le> radius example_data"
    "(0::int) \<le> 0" "0 < numFrames (vi example_data)"
    "fits_int (0 + radius example_data)" "fits_int (2 * radius example_data + 1)"
    by (simp_all add: example_state_def example_data_def fits_int_def)
  note w = frame_window [OF h, of example_api 0]
  have r: "radius example_data = 2" "numFrames (vi example_data) = 10"
    "node example_data = 7" "ref_node example_data = Some 8"
    by (simp_all add: example_data_def)
  from w have a: "\<forall>i. - 2 \<le> i \<and> i \<le> 2 \<longrightarrow>
      src_frames example_data 0 ! nat (i + 2) = FrameOf 7 (clamp i 0 9)"
    by (simp add: r)
  from w have b: "\<forall>i. - 2 \<le> i \<and> i \<le> 2 \<longrightarrow>
      ref_frames example_data 0 ! nat (i + 2) = FrameOf 8 (clamp i 0 9)"
    by (simp add: r)
  from a [rule_format, of "- 2"] a [rule_format, of 2] b [rule_format, of 2]
  have "src_frames example_data 0 ! 0 = FrameOf 7 0"
    "src_frames example_data 0 ! 4 = FrameOf 7 2"
    "ref_frames example_data 0 ! 4 = FrameOf 8 2"
    by (simp_all add: clamp_def)
  moreover from w have "\<forall>fmt r s'. format (vi example_data) = Some fmt \<and>
        (chroma example_data \<or> numPlanes fmt \<le> 3) \<and>
        BM3DGetFrame example_api 0 0 arAllFramesReady example_state = (r, s') \<longrightarrow>
        fetched (frame_events example_state s') =
          src_frames example_data 0 @ ref_frames example_data 0"
    by blast
  from this [rule_format,
      of "\<lparr>format_id = 1, sampleType = stFloat, bitsPerSample = 32, numPlanes = 3\<rparr>"
        "fst (BM3DGetFrame example_api 0 0 arAllFramesReady example_state)"
        "snd (BM3DGetFrame example_api 0 0 arAllFramesReady example_state)"]
  have "fetched (frame_events example_state
      (snd (BM3DGetFrame example_api 0 0 arAllFramesReady example_state))) =
     src_frames example_data 0 @ ref_frames example_data 0"
    by (simp add: example_values)
  ultimately show ?thesis using w
    by (simp add: r example_state_def upto.simps)
qed

section \<open>Output frames\<close>

text \<open>
  C2. A compute phase returns a frame of the format and the width of the input clip,
  hence of the same row stride. With radius 0 its height is the input height, and the
  video info advertised by \<open>BM3DInit\<close> is the input's. With a radius \<open>R > 0\<close> the height of
  the frame and the advertised height are both \<open>2 * (2 * R + 1)\<close> times the input height,
  and the advertised format, width and frame count are the input's.
\<close>

theorem output_dimensions:
  assumes d: "instanceData s = d" and fmt: "format (vi d) = Some fmt" and R: "0 \<le> radius d"
    and np: "chroma d \<or> numPlanes fmt \<le> 3"
    and range: "fits_int (height (vi d) * 2 * (2 * radius d + 1))"
    and run: "BM3DGetFrame api tid n arAllFramesReady s = (r, s')"
  shows "\<exists>f. r = Inr (Some f) \<and>
     frame_format f = fmt \<and> frame_width f = width (vi d) \<and>
     (\<forall>p. newFrameStride api (frame_format f) (frame_width f) p =
          newFrameStride api fmt (width (vi d)) p) \<and>
     format (BM3DInit d) = format (vi d) \<and> width (BM3DInit d) = width (vi d) \<and>
     numFrames (BM3DInit d) = numFrames (vi d) \<and>
     (radius d = 0 \<longrightarrow> frame_height f = height (vi d) \<and> BM3DInit d = vi d) \<and>
     (0 < radius d \<longrightarrow>
        frame_height f = 2 * (2 * radius d + 1) * height (vi d) \<and>
        height (BM3DInit d) = 2 * (2 * radius d + 1) * height (vi d))"
proof -
  let ?f = "fst (all_frames_ready api tid n fmt s)"
  from getframe_returns [OF d fmt R np, of api tid n] run
  have r: "r = Inr (Some ?f)" by simp
  have "frame_format ?f = fmt" "frame_width ?f = width (vi d)"
    "radius d = 0 \<longrightarrow> frame_height ?f = height (vi d)"
    "0 < radius d \<longrightarrow> frame_height ?f = 2 * (2 * radius d + 1) * height (vi d)"
    using d by (simp_all add: all_frames_ready_fields)
  moreover have "format (BM3DInit d) = format (vi d)" "width (BM3DInit d) = width (vi d)"
    "numFrames (BM3DInit d) = numFrames (vi d)"
    "radius d = 0 \<longrightarrow> BM3DInit d = vi d"
    "0 < radius d \<longrightarrow> height (BM3DInit d) = 2 * (2 * radius d + 1) * height (vi d)"
    by (simp_all add: BM3DInit_def)
  ultimately show ?thesis using r by simp
qed

theorem output_dimensions_witness:
  "(\<exists>f. fst (BM3DGetFrame example_api 0 5 arAllFramesReady example_state) = Inr (Some f) \<and>
        frame_width f = 64 \<and> frame_height f = 480) \<and>
   height (BM3DInit example_data) = 480 \<and>
   (\<exists>f. fst (BM3DGetFrame example_api 0 5 arAllFramesReady example_spatial) = Inr (Some f) \<and>
        frame_width f = 64 \<and> frame_height f = 48)"
proof -
  let ?fmt = "\<lparr>format_id = 1, sampleType = stFloat, bitsPerSample = 32, numPlanes = 3\<rparr>"
  have "\<exists>f. fst (BM3DGetFrame example_api 0 5 arAllFramesReady example_state) = Inr (Some f) \<and>
        frame_width f = 64 \<and> frame_height f = 480 \<and> height (BM3DInit example_data) = 480"
    using output_dimensions [of example_state example_data ?fmt example_api 0 5
        "fst (BM3DGetFrame example_api 0 5 arAllFramesReady example_state)"
        "snd (BM3DGetFrame example_api 0 5 arAllFramesReady example_state)"]
    by (fastforce simp: example_values fits_int_def)
  moreover
  have "\<exists>f. fst (BM3DGetFrame example_api 0 5 arAllFramesReady example_spatial) = Inr (Some f) \<and>
        frame_width f = 64 \<and> frame_height f = 48"
    using output_dimensions [of example_spatial "example_data\<lparr>radius := 0\<rparr>" ?fmt
        example_api 0 5
        "fst (BM3DGetFrame example_api 0 5 arAllFramesReady example_spatial)"
        "snd (BM3DGetFrame example_api 0 5 arAllFramesReady example_spatial)"]
    by (fastforce simp: example_values fits_int_def)
  ultimately show ?thesis by blast
qed

text \<open>
  C8. A frame produced with a radius \<open>R > 0\<close> carries two properties written by the
  filter, in this order: the integer \<open>R\<close> under \<^verbatim>\<open>BM3D_V_radius\<close> and the array of the three
  process flags, each 1 for true and 0 for false, under \<^verbatim>\<open>BM3D_V_process\<close>. A frame
  produced with radius 0 carries no property written by the filter.
\<close>

theorem frame_metadata:
  assumes d: "instanceData s = d" and fmt: "format (vi d) = Some fmt" and R: "0 \<le> radius d"
    and np: "chroma d \<or> numPlanes fmt \<le> 3"
    and run: "BM3DGetFrame api tid n arAllFramesReady s = (r, s')"
  shows "\<exists>f. r = Inr (Some f) \<and>
     (0 < radius d \<longrightarrow>
        frame_props f =
          [(''BM3D_V_radius'', PropInt (radius d)),
           (''BM3D_V_process'',
            PropIntArray [if process d ! 0 then 1 else 0, if process d ! 1 then 1 else 0,
              if process d ! 2 then 1 else 0])]) \<and>
     (radius d = 0 \<longrightarrow> frame_props f = [])"
proof -
  let ?f = "fst (all_frames_ready api tid n fmt s)"
  from getframe_returns [OF d fmt R np, of api tid n] run
  have r: "r = Inr (Some ?f)" by simp
  then show ?thesis
    using d by (simp add: all_frames_ready_props Let_def int_of_bool_def)
qed

theorem frame_metadata_witness:
  "(\<exists>f. fst (BM3DGetFrame example_api 0 5 arAllFramesReady example_state) = Inr (Some f) \<and>
        frame_props f =
          [(''BM3D_V_radius'', PropInt 2), (''BM3D_V_process'', PropIntArray [1, 0, 1])]) \<and>
   (\<exists>f. fst (BM3DGetFrame example_api 0 5 arAllFramesReady example_spatial) = Inr (Some f) \<and>
        frame_props f = [])"
proof -
  let ?fmt = "\<lparr>format_id = 1, sampleType = stFloat, bitsPerSample = 32, numPlanes = 3\<rparr>"
  have "\<exists>f. fst (BM3DGetFrame example_api 0 5 arAllFramesReady example_state) = Inr (Some f) \<and>
        frame_props f =
          [(''BM3D_V_radius'', PropInt 2), (''BM3D_V_process'', PropIntArray [1, 0, 1])]"
    using frame_metadata [of example_state example_data ?fmt example_api 0 5
        "fst (BM3DGetFrame example_api 0 5 arAllFramesReady example_state)"
        "snd (BM3DGetFrame example_api 0 5 arAllFramesReady example_state)"]
    by (simp add: example_values)
  moreover
  have "\<exists>f. fst (BM3DGetFrame example_api 0 5 arAllFramesReady example_spatial) = Inr (Some f) \<and>
        frame_props f = []"
    using frame_metadata [of example_spatial "example_data\<lparr>radius := 0\<rparr>" ?fmt
        example_api 0 5
        "fst (BM3DGetFrame example_api 0 5 arAllFramesReady example_spatial)"
        "snd (BM3DGetFrame example_api 0 5 arAllFramesReady example_spatial)"]
    by (simp add: example_values)
  ultimately show ?thesis by blast
qed

section \<open>Kernel dispatch\<close>

text \<open>
  C6. The kernel calls of a compute phase, in order, are these. In joint-chroma mode
  there is exactly one call, for the three planes, with the pointers of every window
  frame of each plane, the three sigmas and the parameters of index 0. In per-plane
  mode there is one call for each plane whose process flag is set, in the order of
  the planes, with the plane's own parameters, and none for the other planes. Every
  call is of the variant temporal = (radius > 0), chroma = the chroma flag, final = (a
  reference node is configured). Every call of a spatial phase receives the
  worker's scratch buffer, which the pool maps to the worker afterwards, and every
  call of a temporal phase receives a null scratch pointer.
\<close>

theorem kernel_dispatch:
  assumes d: "instanceData s = d" and fmt: "format (vi d) = Some fmt" and R: "0 \<le> radius d"
    and np: "chroma d \<or> numPlanes fmt \<le> 3"
    and run: "BM3DGetFrame api tid n arAllFramesReady s = (r, s')"
  shows "trace s' = trace s @ frame_events s s' \<and>
     kernel_calls (frame_events s s') =
       (if chroma d then [expected_joint_call api d n (worker_buffer s tid)]
        else map (expected_plane_call api d n (worker_buffer s tid))
               (filter (\<lambda>p. process d ! nat p) [0..numPlanes fmt - 1])) \<and>
     (\<forall>c \<in> set (kernel_calls (frame_events s s')).
        bm3d_temporal c = (0 < radius d) \<and> bm3d_chroma c = chroma d \<and>
        bm3d_final c = (ref_node d \<noteq> None) \<and> bm3d_buffer c = worker_buffer s tid) \<and>
     (radius d = 0 \<and> kernel_calls (frame_events s s') \<noteq> [] \<longrightarrow>
        buffer (instanceData s') tid = Some (scratch_of s tid))"
proof -
  note ev = frame_events_run [OF d fmt R np run]
  have s': "s' = snd (all_frames_ready api tid n fmt s)"
    using run getframe_returns [OF d fmt R np, of api tid n] by simp
  have calls: "kernel_calls (frame_events s s') =
       (if chroma d then [expected_joint_call api d n (worker_buffer s tid)]
        else map (expected_plane_call api d n (worker_buffer s tid))
               (filter (\<lambda>p. process d ! nat p) [0..numPlanes fmt - 1]))"
    using d R by (simp add: ev kernel_calls_compute)
  have variant: "\<forall>c \<in> set (kernel_calls (frame_events s s')).
        bm3d_temporal c = (0 < radius d) \<and> bm3d_chroma c = chroma d \<and>
        bm3d_final c = (ref_node d \<noteq> None) \<and> bm3d_buffer c = worker_buffer s tid"
    unfolding calls by (auto simp: expected_joint_call_def expected_plane_call_def Let_def)
  have pool: "radius d = 0 \<and> kernel_calls (frame_events s s') \<noteq> [] \<longrightarrow>
        buffer (instanceData s') tid = Some (scratch_of s tid)"
    unfolding ev(1)
    using d by (simp add: s' all_frames_ready_data scratch_of_def split: option.splits)
  have tr: "trace s' = trace s @ frame_events s s'"
    using ev by simp
  show ?thesis
    by (intro conjI) (fact tr calls variant pool)+
qed

theorem kernel_dispatch_witness:
  "map bm3d_dstps
     (kernel_calls (frame_events example_state
        (snd (BM3DGetFrame example_api 0 5 arAllFramesReady example_state)))) =
     [[WritePtr 0], [WritePtr 2]] \<and>
   map bm3d_block_step
     (kernel_calls (frame_events example_state
        (snd (BM3DGetFrame example_api 0 5 arAllFramesReady example_state)))) = [8, 6] \<and>
   map bm3d_buffer
     (kernel_calls (frame_events example_state
        (snd (BM3DGetFrame example_api 0 5 arAllFramesReady example_state)))) = [None, None] \<and>
   map bm3d_temporal
     (kernel_calls (frame_events example_state
        (snd (BM3DGetFrame example_api 0 5 arAllFramesReady example_state)))) = [True, True]"
proof -
  let ?fmt = "\<lparr>format_id = 1, sampleType = stFloat, bitsPerSample = 32, numPlanes = 3\<rparr>"
  have "kernel_calls (frame_events example_state
        (snd (BM3DGetFrame example_api 0 5 arAllFramesReady example_state))) =
     map (expected_plane_call example_api example_data 5 (worker_buffer example_state 0))
       (filter (\<lambda>p. process example_data ! nat p) [0..numPlanes ?fmt - 1])"
    using kernel_dispatch [of example_state example_data ?fmt example_api 0 5
        "fst (BM3DGetFrame example_api 0 5 arAllFramesReady example_state)"
        "snd (BM3DGetFrame example_api 0 5 arAllFramesReady example_state)"]
    by (simp add: example_values)
  then show ?thesis
    by (simp add: example_values upto.simps expected_plane_call_def worker_buffer_def Let_def
        example_data_def)
qed

text \<open>
  C10. In joint-chroma mode a compute phase makes exactly one kernel call, on all
  three planes, whatever the process flags are: the same call is made when the flags
  are replaced by any others, so also when no plane is marked for processing.
\<close>

theorem joint_chroma_ignores_process:
  assumes d: "instanceData s = d" and fmt: "format (vi d) = Some fmt" and R: "0 \<le> radius d"
    and ch: "chroma d"
    and run: "BM3DGetFrame api tid n arAllFramesReady s = (r, s')"
    and run2: "BM3DGetFrame api tid n arAllFramesReady (s\<lparr>instanceData := d\<lparr>process := p\<rparr>\<rparr>) =
        (r2, s2)"
  shows "kernel_calls (frame_events s s') =
       [expected_joint_call api d n (worker_buffer s tid)] \<and>
     bm3d_dstps (expected_joint_call api d n (worker_buffer s tid)) =
       [WritePtr 0, WritePtr 1, WritePtr 2] \<and>
     kernel_calls (frame_events (s\<lparr>instanceData := d\<lparr>process := p\<rparr>\<rparr>) s2) =
       kernel_calls (frame_events s s')"
proof -
  let ?s2 = "s\<lparr>instanceData := d\<lparr>process := p\<rparr>\<rparr>"
  have np: "chroma d \<or> numPlanes fmt \<le> 3" using ch by simp
  have a: "kernel_calls (frame_events s s') =
       [expected_joint_call api d n (worker_buffer s tid)]"
    using frame_events_run(1) [OF d fmt R np run] d R ch by (simp add: kernel_calls_compute)
  have "frame_events ?s2 s2 = compute_events api tid n fmt ?s2"
    using frame_events_run(1) [of ?s2 "d\<lparr>process := p\<rparr>" fmt api tid n r2 s2] run2 fmt R ch
    by simp
  then have b: "kernel_calls (frame_events ?s2 s2) =
       [expected_joint_call api (d\<lparr>process := p\<rparr>) n (worker_buffer ?s2 tid)]"
    using R ch by (simp add: kernel_calls_compute)
  have c: "worker_buffer ?s2 tid = worker_buffer s tid"
    using d by (simp add: worker_buffer_def scratch_of_def split: option.splits)
  have w: "src_frames (d\<lparr>process := p\<rparr>) n = src_frames d n"
    "ref_frames (d\<lparr>process := p\<rparr>) n = ref_frames d n"
    by (simp_all add: src_frames_closed ref_frames_closed split: option.splits)
  have e: "expected_joint_call api (d\<lparr>process := p\<rparr>) n b = expected_joint_call api d n b" for b
    by (simp add: expected_joint_call_def w)
  show ?thesis
    by (simp add: a b c e) (simp add: expected_joint_call_def Let_def)
qed

theorem joint_chroma_ignores_process_witness:
  "map bm3d_dstps
     (kernel_calls (frame_events example_joint
        (snd (BM3DGetFrame example_api 0 5 arAllFramesReady example_joint)))) =
     [[WritePtr 0, WritePtr 1, WritePtr 2]] \<and>
   kernel_calls
     (frame_events
        (example_joint\<lparr>instanceData := instanceData example_joint\<lparr>process := [True, True, True]\<rparr>\<rparr>)
        (snd (BM3DGetFrame example_api 0 5 arAllFramesReady
           (example_joint\<lparr>instanceData :=
              instanceData example_joint\<lparr>process := [True, True, True]\<rparr>\<rparr>)))) =
   kernel_calls (frame_events example_joint
        (snd (BM3DGetFrame example_api 0 5 arAllFramesReady example_joint)))"
  using joint_chroma_ignores_process [of example_joint "instanceData example_joint"
      "\<lparr>format_id = 1, sampleType = stFloat, bitsPerSample = 32, numPlanes = 3\<rparr>"
      example_api 0 5
      "fst (BM3DGetFrame example_api 0 5 arAllFramesReady example_joint)"
      "snd (BM3DGetFrame example_api 0 5 arAllFramesReady example_joint)"
      "[True, True, True]"
      "fst (BM3DGetFrame example_api 0 5 arAllFramesReady
           (example_joint\<lparr>instanceData :=
              instanceData example_joint\<lparr>process := [True, True, True]\<rparr>\<rparr>))"
      "snd (BM3DGetFrame example_api 0 5 arAllFramesReady
           (example_joint\<lparr>instanceData :=
              instanceData example_joint\<lparr>process := [True, True, True]\<rparr>\<rparr>))"]
  by (simp add: example_joint_values example_values)

section \<open>Clearing of scratch and destination memory\<close>




section \<open>Planes passed through\<close>

text \<open>
  C7. In a spatial compute phase (radius 0) in per-plane mode, a plane \<open>i\<close> of the clip
  whose process flag is not set is, in the returned frame, the very plane \<open>i\<close> of the
  source frame \<open>n\<close> (shared, not copied and not written); the kernel calls are those
  of the processed planes, none of them has the plane \<open>i\<close> as its destination, and the
  plane is not zeroed either.
\<close>

theorem passthrough_planes:
  assumes d: "instanceData s = d" and fmt: "format (vi d) = Some fmt"
    and rad: "radius d = 0" and nc: "\<not> chroma d" and np: "numPlanes fmt \<le> 3"
    and n: "0 \<le> n" "n < numFrames (vi d)"
    and run: "BM3DGetFrame api tid n arAllFramesReady s = (r, s')"
    and i: "0 \<le> i" "i < numPlanes fmt" "\<not> process d ! nat i"
  shows "\<exists>f. r = Inr (Some f) \<and>
     frame_planes f ! nat i = SharedPlane (FrameOf (node d) n) i \<and>
     map bm3d_dstps (kernel_calls (frame_events s s')) =
       map (\<lambda>p. [WritePtr p]) (filter (\<lambda>p. process d ! nat p) [0..numPlanes fmt - 1]) \<and>
     WritePtr i \<notin> set (concat (map bm3d_dstps (kernel_calls (frame_events s s')))) \<and>
     WritePtr i \<notin> set (cleared_pointers (frame_events s s'))"
proof -
  have R: "0 \<le> radius d" and np': "chroma d \<or> numPlanes fmt \<le> 3" using rad np by simp_all
  let ?f = "fst (all_frames_ready api tid n fmt s)"
  let ?ps = "filter (\<lambda>p. process d ! nat p) [0..numPlanes fmt - 1]"
  note ev = frame_events_run [OF d fmt R np' run]
  from getframe_returns [OF d fmt R np', of api tid n] run
  have r: "r = Inr (Some ?f)" by simp
  have center: "src_frames d n ! nat (radius d) = FrameOf (node d) n"
    using rad n by (simp add: src_frames_closed clamp_def)
  have "\<forall>p \<in> set ?ps. 0 \<le> p \<and> p \<noteq> i" using i by auto
  from foldl_getWritePtr_other [OF i(1) this]
  have planes: "frame_planes ?f ! nat i = SharedPlane (FrameOf (node d) n) i"
    using d nc center make_dst_frame_shared [OF rad i(1,2) np i(3)]
    by (simp add: all_frames_ready_planes)
  have calls: "map bm3d_dstps (kernel_calls (frame_events s s')) = map (\<lambda>p. [WritePtr p]) ?ps"
    using d R nc by (simp add: ev kernel_calls_compute expected_plane_call_def Let_def comp_def)
  have "WritePtr i \<notin> set (concat (map bm3d_dstps (kernel_calls (frame_events s s'))))"
    using i by (auto simp: calls)
  moreover have "WritePtr i \<notin> set (cleared_pointers (frame_events s s'))"
    using d R rad by (auto simp: ev cleared_pointers_compute)
  ultimately show ?thesis using r planes calls by simp
qed

theorem passthrough_planes_witness:
  "\<exists>f. fst (BM3DGetFrame example_api 0 5 arAllFramesReady example_spatial) = Inr (Some f) \<and>
       frame_planes f ! 1 = SharedPlane (FrameOf 7 5) 1"
  using passthrough_planes [of example_spatial "example_data\<lparr>radius := 0\<rparr>"
      "\<lparr>format_id = 1, sampleType = stFloat, bitsPerSample = 32, numPlanes = 3\<rparr>" 5
      example_api 0
      "fst (BM3DGetFrame example_api 0 5 arAllFramesReady example_spatial)"
      "snd (BM3DGetFrame example_api 0 5 arAllFramesReady example_spatial)" 1]
  by (fastforce simp: example_values)

section \<open>Construction\<close>

lemma sigma_loop_unroll:
  assumes "sigma d = [u0, u1, u2]" "process d = [v0, v1, v2]"
  shows "sigma_loop in' 0 d =
     (let c = sigma_scale (ref_node d = None) in
      case sigma_input in' 0 u0 of
        Inl m \<Rightarrow> Inl m
      | Inr a0 \<Rightarrow>
     (case sigma_input in' 1 (fmul a0 c) of
        Inl m \<Rightarrow> Inl m
      | Inr a1 \<Rightarrow>
     (case sigma_input in' 2 (fmul a1 c) of
        Inl m \<Rightarrow> Inl m
      | Inr a2 \<Rightarrow>
          Inr (d\<lparr>process := [\<not> fless (fmul a0 c) epsilon, \<not> fless (fmul a1 c) epsilon,
                             \<not> fless (fmul a2 c) epsilon],
                 sigma := [fmul a0 c, fmul a1 c, fmul a2 c]\<rparr>))))"
  using assms
  by (simp add: sigma_loop.simps [of _ 0] sigma_loop.simps [of _ "Suc 0"]
      sigma_loop.simps [of _ "Suc (Suc 0)"] sigma_loop.simps [of _ "Suc (Suc (Suc 0))"]
      eval_nat_numeral Let_def split: sum.splits)

lemma int_loop_unroll:
  "int_loop vals dflt bad msg 0 [u0, u1, u2] =
     (case int_input vals dflt bad msg 0 u0 of
        Inl m \<Rightarrow> Inl m
      | Inr a0 \<Rightarrow>
     (case int_input vals dflt bad msg 1 a0 of
        Inl m \<Rightarrow> Inl m
      | Inr a1 \<Rightarrow>
     (case int_input vals dflt bad msg 2 a1 of
        Inl m \<Rightarrow> Inl m
      | Inr a2 \<Rightarrow> Inr [a0, a1, a2])))"
  by (simp add: int_loop.simps [of _ _ _ _ 0] int_loop.simps [of _ _ _ _ "Suc 0"]
      int_loop.simps [of _ _ _ _ "Suc (Suc 0)"] int_loop.simps [of _ _ _ _ "Suc (Suc (Suc 0))"]
      eval_nat_numeral split: sum.splits)

lemma int_loop_error: "int_loop vals dflt bad msg 0 [u0, u1, u2] = Inl m \<Longrightarrow> m = msg"
  by (auto simp: int_loop_unroll int_input_def split: sum.splits option.splits if_splits)

lemma sigma_loop_error:
  assumes "sigma d = [u0, u1, u2]" "process d = [v0, v1, v2]"
    and "sigma_loop in' 0 d = Inl m"
  shows "m = quoted ''sigma'' @ '' must be non-negative''"
  using assms(3) unfolding sigma_loop_unroll [OF assms(1,2)]
  by (auto simp: sigma_input_def Let_def split: sum.splits option.splits if_splits)

lemma sigma_loop_keeps:
  assumes "sigma d = [u0, u1, u2]" "process d = [v0, v1, v2]"
    and "sigma_loop in' 0 d = Inr d1"
  shows "\<exists>p s. d1 = d\<lparr>process := p, sigma := s\<rparr>"
  using assms(3) unfolding sigma_loop_unroll [OF assms(1,2)]
  by (auto simp: Let_def split: sum.splits)

lemma set_error_keeps [simp]:
  "set_error evs (d\<lparr>process := p, sigma := s\<rparr>) m = set_error evs d m"
  by (simp add: set_error_def)

lemma zeroed_initial [simp]:
  "zeroed (initial_data api in')" "zeroed ((initial_data api in')\<lparr>ref_node := x\<rparr>)"
  by (simp_all add: zeroed_def initial_data_def)

lemma read_params_result:
  assumes "zeroed d"
  shows "(\<exists>d'. read_params api evs in' fmt d = (evs @ [CreateFilter], Created d')) \<or>
     (\<exists>m \<in> set param_messages. read_params api evs in' fmt d = set_error evs d m)"
proof (cases "sigma_loop in' 0 d")
  case (Inl m)
  from assms have z: "sigma d = [Finite 0, Finite 0, Finite 0]" "process d = [False, False, False]"
    by (simp_all add: zeroed_def)
  from sigma_loop_error [OF z Inl] Inl show ?thesis
    by (simp add: read_params_def param_messages_def)
next
  case (Inr d1)
  from assms have z: "sigma d = [Finite 0, Finite 0, Finite 0]" "process d = [False, False, False]"
    by (simp_all add: zeroed_def)
  from sigma_loop_keeps [OF z Inr] obtain p s where d1: "d1 = d\<lparr>process := p, sigma := s\<rparr>"
    by blast
  show ?thesis
    using Inr assms
    by (auto simp: read_params_def d1 param_messages_def Let_def zeroed_def
        split: sum.splits option.splits if_splits dest!: int_loop_error)
qed

lemma errors_append [simp]: "errors (xs @ ys) = errors xs @ errors ys"
  by (induction xs rule: errors.induct) simp_all

lemma acquired_append [simp]: "acquired (xs @ ys) = acquired xs @ acquired ys"
  by (induction xs rule: acquired.induct) simp_all

lemma released_append [simp]: "released (xs @ ys) = released xs @ released ys"
  by (induction xs rule: released.induct) simp_all

lemma clean_set_error:
  assumes "errors evs = []" "released evs = []" "CreateFilter \<notin> set evs"
    "acquired evs = node d # (case ref_node d of None \<Rightarrow> [] | Some r \<Rightarrow> [r])"
  shows "create_effects (set_error evs d m)"
  using assms by (simp add: create_effects_def set_error_def split: option.splits)

lemma clean_read_params:
  assumes "errors evs = []" "released evs = []" "CreateFilter \<notin> set evs"
    "acquired evs = node d # (case ref_node d of None \<Rightarrow> [] | Some r \<Rightarrow> [r])"
    and "zeroed d"
  shows "create_effects (read_params api evs in' fmt d)"
proof -
  from read_params_result [OF assms(5), of api evs in' fmt]
  consider d' where "read_params api evs in' fmt d = (evs @ [CreateFilter], Created d')"
    | m where "read_params api evs in' fmt d = set_error evs d m"
    by blast
  then show ?thesis
  proof cases
    case 1
    then show ?thesis using assms(1,2) by (simp add: create_effects_def)
  next
    case 2
    then show ?thesis using clean_set_error [OF assms(1-4), of m] by simp
  qed
qed

lemma create_outcomes: "create_effects (BM3DCreate api in')"
proof -
  let ?d = "initial_data api in'"
  let ?evs = "[PropGetNode ''clip'' (arg_clip in')]"
  have a: "create_effects (set_error ?evs ?d m)" for m
    by (rule clean_set_error) (simp_all add: initial_data_def)
  have b: "create_effects (read_params api ?evs in' fmt ?d)" for fmt
    by (rule clean_read_params) (simp_all, simp_all add: initial_data_def)
  have c: "create_effects (set_error (?evs @ [PropGetNode ''ref'' r]) (?d\<lparr>ref_node := Some r\<rparr>) m)"
    for r m
    by (rule clean_set_error) (simp_all add: initial_data_def)
  have e: "create_effects (read_params api (?evs @ [PropGetNode ''ref'' r]) in' fmt
      (?d\<lparr>ref_node := Some r\<rparr>))" for r fmt
    by (rule clean_read_params) (simp_all, simp_all add: initial_data_def)
  have f: "create_effects (?evs @ [PropGetNode ''ref'' r], NullDereference)" for r
    by (simp add: create_effects_def)
  show ?thesis
    unfolding BM3DCreate_def Let_def
    using a b c e f by (simp split: option.splits)
qed

lemma ref_messages_distinct: "distinct ref_messages"
  by (simp add: ref_messages_def quoted_def)

lemma param_not_ref: "m \<in> set param_messages \<Longrightarrow> ''BM3D: '' @ m \<notin> set ref_messages"
  by (auto simp: param_messages_def ref_messages_def quoted_def)

lemma failed_iff: "failed res \<longleftrightarrow> snd res = Failed"
  by (simp add: failed_def split: outcome.splits)

lemma read_params_created:
  assumes "zeroed d0" and "snd (read_params api evs in' fmt d0) = Created d"
  shows "\<exists>d1. sigma_loop in' 0 d0 = Inr d1 \<and> sigma d = sigma d1 \<and> process d = process d1 \<and>
     ref_node d = ref_node d0 \<and> node d = node d0 \<and> vi d = vi d0 \<and> buffer d = buffer d0 \<and>
     0 \<le> radius d \<and> (chroma d \<longrightarrow> format_id fmt = pfYUV444PS api)"
proof (cases "sigma_loop in' 0 d0")
  case (Inl m)
  with assms(2) show ?thesis by (simp add: read_params_def set_error_def)
next
  case (Inr d1)
  from assms(1) have z: "sigma d0 = [Finite 0, Finite 0, Finite 0]"
    "process d0 = [False, False, False]" by (simp_all add: zeroed_def)
  from sigma_loop_keeps [OF z Inr] obtain p s where d1: "d1 = d0\<lparr>process := p, sigma := s\<rparr>"
    by blast
  show ?thesis
    using assms(2) Inr
    by (auto simp: read_params_def d1 set_error_def Let_def
        split: sum.splits option.splits if_splits)
qed

lemma initial_fields [simp]:
  "node (initial_data api in') = arg_clip in'"
  "vi (initial_data api in') = getVideoInfo api (arg_clip in')"
  "ref_node (initial_data api in') = None"
  "buffer (initial_data api in') = Map.empty"
  by (simp_all add: initial_data_def)

lemma create_reaches_params:
  assumes "snd (BM3DCreate api in') = Created d"
  shows "\<exists>evs fmt d0. zeroed d0 \<and> ref_node d0 = arg_ref in' \<and> node d0 = arg_clip in' \<and>
     vi d0 = getVideoInfo api (arg_clip in') \<and> format (vi d0) = Some fmt \<and>
     buffer d0 = Map.empty \<and> snd (read_params api evs in' fmt d0) = Created d"
proof (cases "arg_ref in'")
  case None
  with assms show ?thesis
    by (intro exI [of _ "[PropGetNode ''clip'' (arg_clip in')]"]
        exI [of _ "the (format (getVideoInfo api (arg_clip in')))"]
        exI [of _ "initial_data api in'"])
      (auto simp: BM3DCreate_def Let_def set_error_def isConstantFormat_def
        split: option.splits if_splits)
next
  case (Some r)
  with assms show ?thesis
    by (intro exI [of _ "[PropGetNode ''clip'' (arg_clip in'), PropGetNode ''ref'' r]"]
        exI [of _ "the (format (getVideoInfo api (arg_clip in')))"]
        exI [of _ "(initial_data api in')\<lparr>ref_node := Some r\<rparr>"])
      (auto simp: BM3DCreate_def Let_def set_error_def isConstantFormat_def
        split: option.splits if_splits)
qed

lemma created_sigma:
  assumes "snd (BM3DCreate api in') = Created d"
  shows "\<exists>a0 a1 a2.
     sigma_input in' 0 (Finite 0) = Inr a0 \<and>
     sigma_input in' 1 (fmul a0 (sigma_scale (arg_ref in' = None))) = Inr a1 \<and>
     sigma_input in' 2 (fmul a1 (sigma_scale (arg_ref in' = None))) = Inr a2 \<and>
     sigma d = [fmul a0 (sigma_scale (arg_ref in' = None)),
                fmul a1 (sigma_scale (arg_ref in' = None)),
                fmul a2 (sigma_scale (arg_ref in' = None))] \<and>
     process d = [\<not> fless (fmul a0 (sigma_scale (arg_ref in' = None))) epsilon,
                  \<not> fless (fmul a1 (sigma_scale (arg_ref in' = None))) epsilon,
                  \<not> fless (fmul a2 (sigma_scale (arg_ref in' = None))) epsilon]"
proof -
  let ?c = "sigma_scale (arg_ref in' = None)"
  have step: "\<exists>a0 a1 a2.
     sigma_input in' 0 (Finite 0) = Inr a0 \<and> sigma_input in' 1 (fmul a0 ?c) = Inr a1 \<and>
     sigma_input in' 2 (fmul a1 ?c) = Inr a2 \<and>
     sigma d = [fmul a0 ?c, fmul a1 ?c, fmul a2 ?c] \<and>
     process d = [\<not> fless (fmul a0 ?c) epsilon, \<not> fless (fmul a1 ?c) epsilon,
                  \<not> fless (fmul a2 ?c) epsilon]"
    if z: "zeroed d0" and r: "(ref_node d0 = None) = (arg_ref in' = None)"
      and c: "snd (read_params api evs in' fmt d0) = Created d" for d0 evs fmt
  proof -
    from read_params_created [OF z c] obtain d1 where
      d1: "sigma_loop in' 0 d0 = Inr d1" "sigma d = sigma d1" "process d = process d1" by blast
    from z have z': "sigma d0 = [Finite 0, Finite 0, Finite 0]"
      "process d0 = [False, False, False]" by (simp_all add: zeroed_def)
    from d1(1) show ?thesis
      unfolding sigma_loop_unroll [OF z'] d1(2,3) r
      by (auto simp: Let_def split: sum.splits)
  qed
  from create_reaches_params [OF assms] obtain evs fmt d0 where
    "zeroed d0" "ref_node d0 = arg_ref in'" "snd (read_params api evs in' fmt d0) = Created d"
    by blast
  then show ?thesis by (intro step [of d0 evs fmt]) simp_all
qed

lemma created_valid:
  assumes "snd (BM3DCreate api in') = Created d"
  shows "0 \<le> radius d \<and> format (vi d) \<noteq> None \<and> node d = arg_clip in' \<and>
     ref_node d = arg_ref in' \<and> vi d = getVideoInfo api (arg_clip in') \<and>
     buffer d = Map.empty"
proof -
  from create_reaches_params [OF assms] obtain evs fmt d0 where
    d0: "zeroed d0" "ref_node d0 = arg_ref in'" "node d0 = arg_clip in'"
      "vi d0 = getVideoInfo api (arg_clip in')" "format (vi d0) = Some fmt"
      "buffer d0 = Map.empty" "snd (read_params api evs in' fmt d0) = Created d"
    by blast
  from read_params_created [OF d0(1,7)] d0 show ?thesis by auto
qed

text \<open>
  The checks of a reference clip that has a format (lines 408 to 414), for a clip that
  passes the format test: construction reports one of the three reference messages
  exactly when the reference differs from the clip in the format id, in the width
  or the height, or in the number of frames; it then fails with the message of the
  first difference in this order, having acquired and released both nodes. The
  three messages are distinct. Whatever the arguments, a construction that fails has
  reported exactly one error, has released every node it acquired and has not
  created a filter.
\<close>

lemma reference_checks:
  assumes ref: "arg_ref in' = Some r"
    and v: "getVideoInfo api (arg_clip in') = v" and rv: "getVideoInfo api r = ref_vi"
  shows "(isConstantFormat v \<and> format v = Some fmt \<and> sampleType fmt = stFloat \<and>
      bitsPerSample fmt = 32 \<and> format ref_vi = Some ref_fmt \<longrightarrow>
        ((\<exists>m \<in> set (errors (fst (BM3DCreate api in'))). m \<in> set ref_messages) =
           ref_mismatch v fmt ref_vi ref_fmt) \<and>
        (ref_mismatch v fmt ref_vi ref_fmt \<longrightarrow>
           BM3DCreate api in' =
             ([PropGetNode ''clip'' (arg_clip in'), PropGetNode ''ref'' r,
               SetError (ref_message v fmt ref_vi ref_fmt),
               FreeNode (Some (arg_clip in')), FreeNode (Some r)], Failed) \<and>
           ref_message v fmt ref_vi ref_fmt \<in> set ref_messages)) \<and>
     distinct ref_messages \<and>
     (snd (BM3DCreate api in') = Failed \<longrightarrow>
        length (errors (fst (BM3DCreate api in'))) = 1 \<and>
        released (fst (BM3DCreate api in')) = acquired (fst (BM3DCreate api in')) \<and>
        CreateFilter \<notin> set (fst (BM3DCreate api in')))"
proof -
  let ?d = "(initial_data api in')\<lparr>ref_node := Some r\<rparr>"
  let ?evs = "[PropGetNode ''clip'' (arg_clip in'), PropGetNode ''ref'' r]"
  have general: "snd (BM3DCreate api in') = Failed \<longrightarrow>
        length (errors (fst (BM3DCreate api in'))) = 1 \<and>
        released (fst (BM3DCreate api in')) = acquired (fst (BM3DCreate api in')) \<and>
        CreateFilter \<notin> set (fst (BM3DCreate api in'))"
    using create_outcomes [of api in'] by (auto simp: create_effects_def)
  have specific: "((\<exists>m \<in> set (errors (fst (BM3DCreate api in'))). m \<in> set ref_messages) =
           ref_mismatch v fmt ref_vi ref_fmt) \<and>
        (ref_mismatch v fmt ref_vi ref_fmt \<longrightarrow>
           BM3DCreate api in' =
             (?evs @ [SetError (ref_message v fmt ref_vi ref_fmt),
               FreeNode (Some (arg_clip in')), FreeNode (Some r)], Failed) \<and>
           ref_message v fmt ref_vi ref_fmt \<in> set ref_messages)"
    if ok: "isConstantFormat v" "format v = Some fmt" "sampleType fmt = stFloat"
      "bitsPerSample fmt = 32" "format ref_vi = Some ref_fmt"
  proof (cases "ref_mismatch v fmt ref_vi ref_fmt")
    case True
    then have "BM3DCreate api in' =
        (?evs @ [SetError (ref_message v fmt ref_vi ref_fmt),
               FreeNode (Some (arg_clip in')), FreeNode (Some r)], Failed)"
      using ref v rv ok
      by (auto simp: BM3DCreate_def Let_def initial_data_def ref_mismatch_def ref_message_def
          ref_messages_def set_error_def)
    moreover have "ref_message v fmt ref_vi ref_fmt \<in> set ref_messages"
      by (simp add: ref_message_def ref_messages_def)
    ultimately show ?thesis using True by auto
  next
    case False
    then have run: "BM3DCreate api in' = read_params api ?evs in' fmt ?d"
      using ref v rv ok
      by (simp add: BM3DCreate_def Let_def initial_data_def ref_mismatch_def)
    have "(\<exists>d'. read_params api ?evs in' fmt ?d = (?evs @ [CreateFilter], Created d')) \<or>
      (\<exists>m \<in> set param_messages. read_params api ?evs in' fmt ?d = set_error ?evs ?d m)"
      by (rule read_params_result) simp
    then have "\<forall>m \<in> set (errors (fst (BM3DCreate api in'))). m \<notin> set ref_messages"
      unfolding run using param_not_ref by (auto simp: set_error_def)
    with False show ?thesis by auto
  qed
  from general specific ref_messages_distinct show ?thesis by simp
qed

text \<open>A reference clip one frame shorter than the clip.\<close>

lemma reference_checks_example:
  "BM3DCreate mismatch_api (default_args\<lparr>arg_ref := Some 8\<rparr>) =
     ([PropGetNode ''clip'' 7, PropGetNode ''ref'' 8,
       SetError (''BM3D: '' @ quoted ''ref'' @ '' must be of the same number of frames as '' @
         quoted ''clip''),
       FreeNode (Some 7), FreeNode (Some 8)], Failed)"
proof -
  let ?fmt = "\<lparr>format_id = 1, sampleType = stFloat, bitsPerSample = 32, numPlanes = 3\<rparr>"
  have a: "arg_ref (default_args\<lparr>arg_ref := Some 8\<rparr>) = Some 8" by simp
  have b: "getVideoInfo mismatch_api (arg_clip (default_args\<lparr>arg_ref := Some 8\<rparr>)) =
      vi example_data"
    by (simp add: mismatch_api_def example_api_def default_args_def)
  have c: "getVideoInfo mismatch_api 8 = (vi example_data)\<lparr>numFrames := 9\<rparr>"
    by (simp add: mismatch_api_def example_api_def)
  from reference_checks [OF a b c, of ?fmt ?fmt]
  show ?thesis
    by (simp add: example_data_def isConstantFormat_def ref_mismatch_def ref_message_def
        ref_messages_def default_args_def)
qed

text \<open>
  Construction also fails for other reasons than the reference clip: with a
  reference clip that matches the clip in all three respects and a negative sigma,
  it fails with the message about sigma.
\<close>

lemma matching_reference_negative_sigma:
  "failed (BM3DCreate example_api
      (default_args\<lparr>arg_ref := Some 8, arg_sigma := [Finite (- 1)]\<rparr>)) \<and>
   \<not> ref_mismatch (getVideoInfo example_api 7)
       \<lparr>format_id = 1, sampleType = stFloat, bitsPerSample = 32, numPlanes = 3\<rparr>
       (getVideoInfo example_api 8)
       \<lparr>format_id = 1, sampleType = stFloat, bitsPerSample = 32, numPlanes = 3\<rparr> \<and>
   errors (fst (BM3DCreate example_api
      (default_args\<lparr>arg_ref := Some 8, arg_sigma := [Finite (- 1)]\<rparr>))) =
     [''BM3D: '' @ quoted ''sigma'' @ '' must be non-negative'']"
  by code_simp

text \<open>
  C9 at a reference clip of variable format (the format of its video info is null),
  for a clip that passes the format test. The reference differs from the clip in the
  format, and construction does not fail with an error: line 408 reads the id of the
  null format, which the source does not test as it does the clip's at line 396.
  Construction ends there, having acquired both nodes: no error is reported, no
  node is released, no filter is created.
\<close>

theorem reference_variable_format:
  assumes ref: "arg_ref in' = Some r"
    and clip: "isConstantFormat (getVideoInfo api (arg_clip in'))"
      "format (getVideoInfo api (arg_clip in')) = Some fmt"
      "sampleType fmt = stFloat" "bitsPerSample fmt = 32"
    and null: "format (getVideoInfo api r) = None"
  shows "BM3DCreate api in' =
       ([PropGetNode ''clip'' (arg_clip in'), PropGetNode ''ref'' r], NullDereference) \<and>
     format (getVideoInfo api r) \<noteq> format (getVideoInfo api (arg_clip in')) \<and>
     \<not> failed (BM3DCreate api in') \<and>
     errors (fst (BM3DCreate api in')) = [] \<and>
     acquired (fst (BM3DCreate api in')) = [arg_clip in', r] \<and>
     released (fst (BM3DCreate api in')) = [] \<and>
     CreateFilter \<notin> set (fst (BM3DCreate api in'))"
proof -
  have run: "BM3DCreate api in' =
       ([PropGetNode ''clip'' (arg_clip in'), PropGetNode ''ref'' r], NullDereference)"
    using ref clip null by (simp add: BM3DCreate_def Let_def initial_data_def)
  show ?thesis
    unfolding run using clip(2) null by (simp add: failed_def)
qed

theorem reference_variable_format_witness:
  "BM3DCreate variable_ref_api (default_args\<lparr>arg_ref := Some 8\<rparr>) =
     ([PropGetNode ''clip'' 7, PropGetNode ''ref'' 8], NullDereference) \<and>
   errors (fst (BM3DCreate variable_ref_api (default_args\<lparr>arg_ref := Some 8\<rparr>))) = [] \<and>
   released (fst (BM3DCreate variable_ref_api (default_args\<lparr>arg_ref := Some 8\<rparr>))) = []"
proof -
  let ?fmt = "\<lparr>format_id = 1, sampleType = stFloat, bitsPerSample = 32, numPlanes = 3\<rparr>"
  have a: "arg_ref (default_args\<lparr>arg_ref := Some 8\<rparr>) = Some 8" by simp
  have b: "getVideoInfo variable_ref_api (arg_clip (default_args\<lparr>arg_ref := Some 8\<rparr>)) =
      vi example_data"
    by (simp add: variable_ref_api_def example_api_def default_args_def)
  have c: "format (getVideoInfo variable_ref_api 8) = None"
    by (simp add: variable_ref_api_def example_api_def)
  have d: "isConstantFormat (vi example_data)" "format (vi example_data) = Some ?fmt"
    by (simp_all add: example_data_def isConstantFormat_def)
  from reference_variable_format [of "default_args\<lparr>arg_ref := Some 8\<rparr>" 8 variable_ref_api ?fmt]
    a b c d
  show ?thesis
    by (simp add: default_args_def)
qed

text \<open>
  The sigmas of a created instance: every entry is the product of the scale factor
  and of the supplied value, or of 3 for a missing first entry, or of the previous
  entry of the instance, which is already scaled, for a missing later entry.
\<close>

lemma sigma_scaling:
  assumes "snd (BM3DCreate api in') = Created d" and "i < 3"
  shows "sigma d ! i =
     fmul (case propGet (arg_sigma in') i of
             Some x \<Rightarrow> to_float x
           | None \<Rightarrow> if i = 0 then Finite 3 else sigma d ! (i - 1))
       (sigma_scale (arg_ref in' = None))"
proof -
  from created_sigma [OF assms(1)] obtain a0 a1 a2 where
    a: "sigma_input in' 0 (Finite 0) = Inr a0"
      "sigma_input in' 1 (fmul a0 (sigma_scale (arg_ref in' = None))) = Inr a1"
      "sigma_input in' 2 (fmul a1 (sigma_scale (arg_ref in' = None))) = Inr a2"
      "sigma d = [fmul a0 (sigma_scale (arg_ref in' = None)),
                fmul a1 (sigma_scale (arg_ref in' = None)),
                fmul a2 (sigma_scale (arg_ref in' = None))]"
    by blast
  from assms(2) have "i = 0 \<or> i = 1 \<or> i = 2" by arith
  then show ?thesis
    using a by (auto simp: sigma_input_def split: option.splits if_splits)
qed

text \<open>
  C4 at the input \<^verbatim>\<open>sigma = [3.0]\<close> without a reference clip: the first entry is 3 scaled
  once (about 1.5247), the second is the first scaled again (about 0.7749) and the
  third is the second scaled again (about 0.3938). The two missing entries do not
  have the effective value of the entry they replicate.
\<close>

theorem sigma_replication_failing_input:
  "sigma_of (BM3DCreate example_api (default_args\<lparr>arg_sigma := [Finite 3]\<rparr>)) =
     Some [Finite (12790161 / 8388608), Finite (1625103 / 2097152),
           Finite (3303739 / 8388608)]"
  by code_simp

theorem sigma_replication_failing_input_witness:
  "sigma_of (BM3DCreate example_api (default_args\<lparr>arg_sigma := [Finite 3]\<rparr>)) \<noteq>
     Some [Finite (12790161 / 8388608), Finite (12790161 / 8388608),
           Finite (12790161 / 8388608)]"
  using sigma_replication_failing_input by simp

text \<open>
  C5, as the code has it. In a created instance the process flag of a plane is false
  exactly when the scaled sigma of the plane is less than the machine epsilon: it is
  true for a scaled sigma equal to the machine epsilon, and for a finite scaled sigma
  it is true exactly when the sigma is at least \<open>1 / 2 ^ 23\<close>.
\<close>

theorem process_flags:
  assumes "snd (BM3DCreate api in') = Created d" and "i < 3"
  shows "process d ! i = (\<not> fless (sigma d ! i) epsilon) \<and>
     (sigma d ! i = epsilon \<longrightarrow> process d ! i) \<and>
     (\<forall>q. sigma d ! i = Finite q \<longrightarrow> process d ! i = (1 / 2 ^ 23 \<le> q))"
proof -
  from created_sigma [OF assms(1)] obtain s0 s1 s2 where
    d: "sigma d = [s0, s1, s2]"
      "process d = [\<not> fless s0 epsilon, \<not> fless s1 epsilon, \<not> fless s2 epsilon]"
    by blast
  from assms(2) have "i = 0 \<or> i = 1 \<or> i = 2" by arith
  then have a: "process d ! i = (\<not> fless (sigma d ! i) epsilon)"
    by (auto simp: d)
  then show ?thesis
    by (auto simp: epsilon_def)
qed

lemma epsilon_input:
  "map_option hd (sigma_of (BM3DCreate example_api
      (default_args\<lparr>arg_ref := Some 8, arg_sigma := [Finite (85 / 134217728)]\<rparr>))) =
     Some epsilon"
  by code_simp

theorem process_flags_witness:
  "map_option hd (process_of (BM3DCreate example_api
      (default_args\<lparr>arg_ref := Some 8, arg_sigma := [Finite (85 / 134217728)]\<rparr>))) =
     Some True"
proof -
  let ?res = "BM3DCreate example_api
      (default_args\<lparr>arg_ref := Some 8, arg_sigma := [Finite (85 / 134217728)]\<rparr>)"
  from epsilon_input obtain d where d: "snd ?res = Created d" "hd (sigma d) = epsilon"
    by (auto simp: sigma_of_def split: outcome.splits)
  from created_sigma [OF d(1)] obtain s0 s1 s2 p0 p1 p2 where
    l: "sigma d = [s0, s1, s2]" "process d = [p0, p1, p2]" by blast
  from process_flags [OF d(1), of 0] d(2) l have "hd (process d)" by auto
  with d(1) show ?thesis by (simp add: process_of_def)
qed

text \<open>
  C5 as stated fails: with a reference clip, the sigma \<open>85 / 2 ^ 27\<close> is scaled to the
  machine epsilon exactly, which does not exceed the machine epsilon, and the process
  flag is true.
\<close>

theorem process_flags_counterexample:
  "map_option hd (sigma_of (BM3DCreate example_api
      (default_args\<lparr>arg_ref := Some 8, arg_sigma := [Finite (85 / 134217728)]\<rparr>))) =
     Some epsilon \<and>
   map_option hd (process_of (BM3DCreate example_api
      (default_args\<lparr>arg_ref := Some 8, arg_sigma := [Finite (85 / 134217728)]\<rparr>))) =
     Some True \<and>
   \<not> fless epsilon epsilon"
  by code_simp

end
